theory Spec2Isabelle
  imports Main "HOL-Library.Word" "HOL-Library.AList"
begin

chapter \<open>SymphonyElectron: IPC dispatcher, screen capture session and pod login flow\<close>

text \<open>
  A shallow embedding of two source files of the desktop client's main process:
  \<^item> \<^verbatim>\<open>screen-snippet-handler\<close> (class \<^verbatim>\<open>ScreenSnippet\<close>): the screen capture session;
  \<^item> \<^verbatim>\<open>main-api-handler.ts\<close>: the two IPC listeners, \<^verbatim>\<open>logApiCallParams\<close> and
    \<^verbatim>\<open>loadPodUrl\<close>.

  The code runs on one thread and suspends at \<^verbatim>\<open>await\<close>; an asynchronous function is
  therefore modelled as the sequence of its synchronous pieces, one HOL function per piece,
  each taking the state and returning the new one. Calls to collaborators (Electron,
  the window handler, the file system, child processes) are recorded in order in a list
  of effects. What the host does in its own time (a child process ends, the capture tool
  writes its file, a requested \<^verbatim>\<open>fs.unlink\<close> completes) is an event of its own.
\<close>

section \<open>Bytes and base64\<close>

text \<open>
  \<^verbatim>\<open>Buffer.from(data).toString('base64')\<close> is Node's standard base64 encoding
  (RFC 4648, alphabet \<^verbatim>\<open>A-Za-z0-9+/\<close>, padded with \<^verbatim>\<open>=\<close>). Three bytes give four
  sextets; a final group of one or two bytes is padded.
\<close>

type_synonym byte = "8 word"

definition b64_alphabet :: string where
  "b64_alphabet = ''ABCDEFGHIJKLMNOPQRSTUVWXYZabcdefghijklmnopqrstuvwxyz0123456789+/''"

definition b64_char :: "nat \<Rightarrow> char" where
  "b64_char n = b64_alphabet ! (n mod 64)"

fun index_of :: "'a \<Rightarrow> 'a list \<Rightarrow> nat option" where
  "index_of x [] = None"
| "index_of x (y # ys) = (if x = y then Some 0 else map_option Suc (index_of x ys))"

definition b64_val :: "char \<Rightarrow> nat option" where
  "b64_val c = index_of c b64_alphabet"

definition sextet0 :: "byte \<Rightarrow> nat" where
  "sextet0 a = unat a div 4"
definition sextet1 :: "byte \<Rightarrow> byte \<Rightarrow> nat" where
  "sextet1 a b = (unat a mod 4) * 16 + unat b div 16"
definition sextet2 :: "byte \<Rightarrow> byte \<Rightarrow> nat" where
  "sextet2 b c = (unat b mod 16) * 4 + unat c div 64"
definition sextet3 :: "byte \<Rightarrow> nat" where
  "sextet3 c = unat c mod 64"

fun base64_encode :: "byte list \<Rightarrow> string" where
  "base64_encode [] = []"
| "base64_encode [a] =
     [b64_char (sextet0 a), b64_char (sextet1 a 0), CHR ''='', CHR ''='']"
| "base64_encode [a, b] =
     [b64_char (sextet0 a), b64_char (sextet1 a b), b64_char (sextet2 b 0), CHR ''='']"
| "base64_encode (a # b # c # rest) =
     [b64_char (sextet0 a), b64_char (sextet1 a b), b64_char (sextet2 b c), b64_char (sextet3 c)]
     @ base64_encode rest"

definition octet0 :: "nat \<Rightarrow> nat \<Rightarrow> byte" where
  "octet0 v0 v1 = of_nat (v0 * 4 + v1 div 16)"
definition octet1 :: "nat \<Rightarrow> nat \<Rightarrow> byte" where
  "octet1 v1 v2 = of_nat ((v1 mod 16) * 16 + v2 div 4)"
definition octet2 :: "nat \<Rightarrow> nat \<Rightarrow> byte" where
  "octet2 v2 v3 = of_nat ((v2 mod 4) * 64 + v3)"

fun base64_decode :: "string \<Rightarrow> byte list option" where
  "base64_decode [] = Some []"
| "base64_decode (c0 # c1 # c2 # c3 # rest) =
     (case (b64_val c0, b64_val c1) of
        (Some v0, Some v1) \<Rightarrow>
          (if c2 = CHR ''='' \<and> c3 = CHR ''='' \<and> rest = [] then Some [octet0 v0 v1]
           else (case b64_val c2 of
             None \<Rightarrow> None
           | Some v2 \<Rightarrow>
               (if c3 = CHR ''='' \<and> rest = [] then Some [octet0 v0 v1, octet1 v1 v2]
                else (case b64_val c3 of
                  None \<Rightarrow> None
                | Some v3 \<Rightarrow>
                    map_option (\<lambda>bs. octet0 v0 v1 # octet1 v1 v2 # octet2 v2 v3 # bs)
                      (base64_decode rest)))))
      | _ \<Rightarrow> None)"
| "base64_decode _ = None"

section \<open>JavaScript values\<close>

text \<open>
  What travels over IPC (structured clone): the argument of a message and its parts.
  Numbers are whole numbers here; a \<^verbatim>\<open>Uint8Array\<close> or \<^verbatim>\<open>Buffer\<close> is a list of bytes; an
  object is the list of its own properties in insertion order. Functions do not travel.
  The values are finite trees: an object graph with a cycle, which structured clone
  carries as well and on which \<^verbatim>\<open>JSON.stringify\<close> throws as it does on a \<^verbatim>\<open>BigInt\<close>, is
  not a value of this type.
\<close>

fun string_of_nat :: "nat \<Rightarrow> string" where
  "string_of_nat n =
     (if n < 10 then [char_of (48 + n)]
      else string_of_nat (n div 10) @ [char_of (48 + n mod 10)])"

declare string_of_nat.simps [simp del]

datatype jsval =
    JUndefined
  | JNull
  | JBool bool
  | JNum int
  | JBigInt int
  | JStr string
  | JBuf "byte list"
  | JArr "jsval list"
  | JObj "(string \<times> jsval) list"

datatype js_error = TypeError

text \<open>
  Reading a property \<^verbatim>\<open>v.k\<close>: a TypeError on \<^verbatim>\<open>undefined\<close> and \<^verbatim>\<open>null\<close>, the value or
  \<^verbatim>\<open>undefined\<close> on an object, \<^verbatim>\<open>undefined\<close> on the rest (the names read below are none
  of the properties strings, arrays and buffers have of their own).
\<close>

fun get_prop :: "jsval \<Rightarrow> string \<Rightarrow> js_error + jsval" where
  "get_prop JUndefined k = Inl TypeError"
| "get_prop JNull k = Inl TypeError"
| "get_prop (JObj kvs) k = Inr (case map_of kvs k of None \<Rightarrow> JUndefined | Some v \<Rightarrow> v)"
| "get_prop v k = Inr JUndefined"

fun truthy :: "jsval \<Rightarrow> bool" where
  "truthy JUndefined = False"
| "truthy JNull = False"
| "truthy (JBool b) = b"
| "truthy (JNum n) = (n \<noteq> 0)"
| "truthy (JBigInt n) = (n \<noteq> 0)"
| "truthy (JStr s) = (s \<noteq> [])"
| "truthy v = True"

text \<open>
  The own enumerable properties an object spread \<^verbatim>\<open>{...v}\<close> copies: those of an object;
  the indexed elements of an array, a string or a buffer; none of the other values.
\<close>

definition indexed :: "jsval list \<Rightarrow> (string \<times> jsval) list" where
  "indexed vs = zip (map string_of_nat [0..<length vs]) vs"

fun own_props :: "jsval \<Rightarrow> (string \<times> jsval) list" where
  "own_props (JObj kvs) = kvs"
| "own_props (JArr vs) = indexed vs"
| "own_props (JStr s) = indexed (map (\<lambda>c. JStr [c]) s)"
| "own_props (JBuf bs) = indexed (map (\<lambda>b. JNum (uint b)) bs)"
| "own_props v = []"

text \<open>
  Whether a template literal \<^verbatim>\<open>`${v}`\<close> can render \<open>v\<close>. The conversion of an object
  calls its \<^verbatim>\<open>toString\<close>, which is that of \<^verbatim>\<open>Object.prototype\<close> unless the object has
  an own property of that name; an own property that arrived over IPC is no function, the
  inherited \<^verbatim>\<open>valueOf\<close> returns the object itself and an own one is no function either,
  so the conversion throws a TypeError. An array is rendered by \<^verbatim>\<open>join\<close>, which converts
  each element. Every other value has a text.
\<close>

fun has_string_conversion :: "jsval \<Rightarrow> bool" where
  "has_string_conversion (JObj kvs) = (map_of kvs ''toString'' = None)"
| "has_string_conversion (JArr vs) = list_all has_string_conversion vs"
| "has_string_conversion v = True"

text \<open>
  Whether \<^verbatim>\<open>JSON.stringify(v, null, 2)\<close> returns: it throws a TypeError when it meets a
  \<^verbatim>\<open>BigInt\<close> in an element of an array or in the value of a property.
\<close>

fun serialisable :: "jsval \<Rightarrow> bool" where
  "serialisable (JBigInt n) = False"
| "serialisable (JArr vs) = list_all serialisable vs"
| "serialisable (JObj kvs) = list_all serialisable (map snd kvs)"
| "serialisable v = True"

text \<open>
  \<^verbatim>\<open>Buffer.from(v)\<close> copies the bytes of a \<^verbatim>\<open>Uint8Array\<close> or \<^verbatim>\<open>Buffer\<close>. What Node makes
  of any other value (the UTF-8 bytes of a string, the elements of an array or of an
  array-like object converted to numbers and reduced modulo 256, the bytes listed in the
  JSON form of a \<^verbatim>\<open>Buffer\<close>, a TypeError on the rest) is no code of this repository and
  enters as the parameter \<open>other\<close>.
\<close>

definition Buffer_from :: "(jsval \<Rightarrow> js_error + byte list) \<Rightarrow> jsval \<Rightarrow> js_error + byte list" where
  "Buffer_from other v = (case v of JBuf bs \<Rightarrow> Inr bs | _ \<Rightarrow> other v)"

section \<open>The screen capture session\<close>

subsection \<open>Data\<close>

text \<open>
  The platform constants \<^verbatim>\<open>isMac\<close>, \<^verbatim>\<open>isWindowsOS\<close> and \<^verbatim>\<open>isLinux\<close> of
  \<^verbatim>\<open>common/env\<close>: at most one of them holds in a process.
\<close>

datatype platform = Mac | WindowsOS | Linux | OtherOS

text \<open>The payload \<^verbatim>\<open>IScreenSnippet\<close> sent to the renderer; \<open>data\<close> may be absent.\<close>

record IScreenSnippet =
  message :: string
  data :: "string option"
  type :: string

text \<open>
  What \<^verbatim>\<open>fs.readFile\<close> answers for a path: the bytes, or an error whose \<^verbatim>\<open>code\<close> is
  \<^verbatim>\<open>ENOENT\<close> (no such file) or something else, kept as the text \<^verbatim>\<open>`${error}`\<close> renders.
\<close>

datatype fs_error = ENOENT | FsError string

type_synonym filesystem = "string \<Rightarrow> fs_error + byte list"

text \<open>How the promise of \<^verbatim>\<open>execCmd\<close> settles: \<^verbatim>\<open>reject\<close> when \<^verbatim>\<open>error.killed\<close>, else \<^verbatim>\<open>resolve\<close>.\<close>

datatype settled = Resolved | Rejected

text \<open>The calls the session makes to its collaborators, in the order made.\<close>

datatype effect =
    Kill nat
  | ExecFile nat string "string list"
  | Send nat IScreenSnippet
  | Unlink string
  | UpdateAlwaysOnTop bool
  | MoveTop nat
  | CloseSnippingToolWindow
  | CreateSnippingToolWindow "string option" "(nat \<times> nat) option"
  | OnceUploadSnippet nat

text \<open>
  The fields of class \<^verbatim>\<open>ScreenSnippet\<close> (the first seven), followed by the part of the
  host the session reads and writes: the main window (whether \<^verbatim>\<open>windowExists(mainWindow)\<close>
  holds, and its always-on-top property), \<^verbatim>\<open>windowHandler.isMana\<close>, which windows exist,
  the file system, the image prober \<^verbatim>\<open>sizeOf\<close>, the external processes that are live
  (started, not ended and not sent a kill signal), the next process handle to hand out, and
  the effects so far. A child process handle is a number.
\<close>

record world =
  tempDir :: string
  captureUtil :: string
  outputFileName :: "string option"
  captureUtilArgs :: "string list option"
  child :: "nat option"
  focusedWindow :: "nat option"
  shouldUpdateAlwaysOnTop :: bool
  mainWindowExists :: bool
  alwaysOnTop :: bool
  isMana :: bool
  windowExists :: "nat \<Rightarrow> bool"
  files :: filesystem
  sizeOf :: "byte list \<Rightarrow> (nat \<times> nat) option"
  running :: "nat list"
  nextHandle :: nat
  effects :: "effect list"

subsection \<open>Helpers\<close>

text \<open>\<^verbatim>\<open>path.join\<close> of a directory and a file name (the separator is the platform's).\<close>

definition path_join :: "string \<Rightarrow> string \<Rightarrow> string" where
  "path_join dir name = dir @ ''/'' @ name"

text \<open>JavaScript truthiness of a \<^verbatim>\<open>string | undefined\<close>: undefined and the empty string are falsy.\<close>

fun truthy_str :: "string option \<Rightarrow> bool" where
  "truthy_str None = False"
| "truthy_str (Some s) = (s \<noteq> [])"

definition emit :: "effect \<Rightarrow> world \<Rightarrow> world" where
  "emit e w = w\<lparr>effects := effects w @ [e]\<rparr>"

text \<open>
  Modelled from the spec: \<^verbatim>\<open>updateAlwaysOnTop\<close> of \<^verbatim>\<open>window-actions\<close> is not among the
  sources. The spec calls it the "keep window always on top" setting that a capture
  suspends and restores: the call sets the property to its first argument.
\<close>

definition updateAlwaysOnTop :: "bool \<Rightarrow> world \<Rightarrow> world" where
  "updateAlwaysOnTop b w = emit (UpdateAlwaysOnTop b) (w\<lparr>alwaysOnTop := b\<rparr>)"

subsection \<open>The methods of \<^verbatim>\<open>ScreenSnippet\<close>\<close>

text \<open>
  \<^verbatim>\<open>killChildProcess\<close>: \<^verbatim>\<open>this.child.kill()\<close> when a handle is stored (a
  \<^verbatim>\<open>ChildProcess\<close> always has a function \<^verbatim>\<open>kill\<close>). A process that was sent the signal
  no longer counts as live. The stored handle stays.
\<close>

definition killChildProcess :: "world \<Rightarrow> world" where
  "killChildProcess w =
     (case child w of
        None \<Rightarrow> w
      | Some p \<Rightarrow> emit (Kill p) (w\<lparr>running := removeAll p (running w)\<rparr>))"

text \<open>
  \<^verbatim>\<open>execCmd\<close>, up to the return of the pending promise: \<^verbatim>\<open>execFile\<close> starts the
  process and its handle is stored in \<^verbatim>\<open>this.child\<close>.
\<close>

definition execCmd :: "string \<Rightarrow> string list \<Rightarrow> world \<Rightarrow> world" where
  "execCmd util args w =
     emit (ExecFile (nextHandle w) util args)
       (w\<lparr>child := Some (nextHandle w),
          running := running w @ [nextHandle w],
          nextHandle := Suc (nextHandle w)\<rparr>)"

definition verifyAndUpdateAlwaysOnTop :: "world \<Rightarrow> world" where
  "verifyAndUpdateAlwaysOnTop w =
     (if shouldUpdateAlwaysOnTop w
      then (updateAlwaysOnTop True w)\<lparr>shouldUpdateAlwaysOnTop := False\<rparr>
      else w)"

text \<open>
  \<^verbatim>\<open>deleteFile\<close>: \<^verbatim>\<open>fs.unlink(filePath, callback)\<close> is called and not awaited ("remove
  tmp file (async)"). The call only hands the request to the host: the file is still there
  when \<^verbatim>\<open>deleteFile\<close> returns. The host removes it later, or fails to, and then the
  callback logs the error (the event \<open>UnlinkSettled\<close> below).
\<close>

definition deleteFile :: "string \<Rightarrow> world \<Rightarrow> world" where
  "deleteFile filePath w = emit (Unlink filePath) w"

text \<open>
  \<^verbatim>\<open>convertFileToData\<close>: the payload of the \<^verbatim>\<open>try\<close>/\<^verbatim>\<open>catch\<close>, then the
  \<^verbatim>\<open>finally\<close> block (move the focused window to the top, ask for the deletion of the
  file). The test
  \<^verbatim>\<open>if (!data)\<close> never fires: \<^verbatim>\<open>readFile\<close> resolves with a \<^verbatim>\<open>Buffer\<close>, an object,
  which is truthy even when empty.
\<close>

definition convertFileToData_result :: "world \<Rightarrow> IScreenSnippet" where
  "convertFileToData_result w =
     (if \<not> truthy_str (outputFileName w)
      then \<lparr>message = ''output file name is required'', data = None, type = ''ERROR''\<rparr>
      else (case files w (the (outputFileName w)) of
          Inr bytes \<Rightarrow>
            \<lparr>message = ''success'', data = Some (base64_encode bytes), type = ''image/png;base64''\<rparr>
        | Inl ENOENT \<Rightarrow> \<lparr>message = ''file does not exist'', data = None, type = ''ERROR''\<rparr>
        | Inl (FsError txt) \<Rightarrow> \<lparr>message = txt, data = None, type = ''ERROR''\<rparr>))"

definition convertFileToData_finally :: "world \<Rightarrow> world" where
  "convertFileToData_finally w =
     (let w1 = (case focusedWindow w of
                  Some fw \<Rightarrow> if windowExists w fw then emit (MoveTop fw) w else w
                | None \<Rightarrow> w)
      in if truthy_str (outputFileName w1) then deleteFile (the (outputFileName w1)) w1 else w1)"

definition convertFileToData :: "world \<Rightarrow> IScreenSnippet \<times> world" where
  "convertFileToData w = (convertFileToData_result w, convertFileToData_finally w)"

text \<open>
  \<^verbatim>\<open>getImageSize\<close>: undefined without a file name, else the dimensions \<^verbatim>\<open>sizeOf\<close> finds;
  \<^verbatim>\<open>sizeOf\<close> throws when the file is missing or is no image (\<open>Inl\<close>).
\<close>

definition getImageSize :: "world \<Rightarrow> unit + (nat \<times> nat) option" where
  "getImageSize w =
     (if \<not> truthy_str (outputFileName w) then Inr None
      else (case files w (the (outputFileName w)) of
          Inl _ \<Rightarrow> Inl ()
        | Inr bytes \<Rightarrow> (case sizeOf w bytes of None \<Rightarrow> Inl () | Some d \<Rightarrow> Inr (Some d))))"

text \<open>
  \<^verbatim>\<open>capture\<close>, first piece: from the call to the \<^verbatim>\<open>await\<close> on \<^verbatim>\<open>execCmd\<close>. The inputs
  are \<^verbatim>\<open>Date.now()\<close>, \<^verbatim>\<open>i18n.getLocale()\<close> and \<^verbatim>\<open>BrowserWindow.getFocusedWindow()\<close>.
\<close>

definition capture_args :: "platform \<Rightarrow> bool \<Rightarrow> string \<Rightarrow> string \<Rightarrow> string list" where
  "capture_args plat mana name locale =
     (if plat = Mac then [''-i'', ''-s'', ''-t'', ''png'', name]
      else if plat = WindowsOS then
        (if mana then [''--no-annotate'', name, locale] else [name, locale])
      else if plat = Linux then [''-a'', ''-f'', name]
      else [])"

text \<open>The always-on-top property is suspended on Windows when a main window exists.\<close>

definition capture_suspend :: "platform \<Rightarrow> world \<Rightarrow> world" where
  "capture_suspend plat w =
     (if mainWindowExists w \<and> plat = WindowsOS then
        (let w' = w\<lparr>shouldUpdateAlwaysOnTop := alwaysOnTop w\<rparr>
         in if shouldUpdateAlwaysOnTop w' then updateAlwaysOnTop False w' else w')
      else w)"

text \<open>The output file name, the arguments of the tool and the focused window are stored.\<close>

definition output_name :: "world \<Rightarrow> nat \<Rightarrow> string" where
  "output_name w now = path_join (tempDir w) (''symphonyImage-'' @ string_of_nat now @ ''.png'')"

definition capture_prepare :: "platform \<Rightarrow> nat \<Rightarrow> string \<Rightarrow> nat option \<Rightarrow> world \<Rightarrow> world" where
  "capture_prepare plat now locale focused w =
     w\<lparr>outputFileName := Some (output_name w now),
       captureUtilArgs := Some (capture_args plat (isMana w) (output_name w now) locale),
       focusedWindow := focused\<rparr>"

text \<open>
  "Only allow one screen capture at a time": a stored child is killed, then the tool is
  started with \<^verbatim>\<open>this.captureUtil\<close> and \<^verbatim>\<open>this.captureUtilArgs\<close>.
\<close>

definition capture_spawn :: "world \<Rightarrow> world" where
  "capture_spawn w =
     (let w' = (if child w \<noteq> None then killChildProcess w else w)
      in execCmd (captureUtil w') (case captureUtilArgs w' of None \<Rightarrow> [] | Some args \<Rightarrow> args) w')"

definition capture_start :: "platform \<Rightarrow> nat \<Rightarrow> string \<Rightarrow> nat option \<Rightarrow> world \<Rightarrow> world" where
  "capture_start plat now locale focused w =
     capture_spawn (capture_prepare plat now locale focused (capture_suspend plat w))"

text \<open>
  \<^verbatim>\<open>uploadSnippet\<close> registers a one-shot listener on the channel \<^verbatim>\<open>upload-snippet\<close>.
  When a message \<open>snippetData\<close> arrives the listener runs \<open>upload_snippet\<close>.
  \<^verbatim>\<open>mergedImageData.split(',')\<close> gives the type and the data (absent without a comma).
\<close>

definition split_comma :: "string \<Rightarrow> string \<times> string option" where
  "split_comma s =
     (let t = takeWhile (\<lambda>c. c \<noteq> CHR '','') s; r = dropWhile (\<lambda>c. c \<noteq> CHR '','') s
      in (t, if r = [] then None else Some (takeWhile (\<lambda>c. c \<noteq> CHR '','') (tl r))))"

text \<open>
  The \<^verbatim>\<open>try\<close> block closes the editor window, splits \<^verbatim>\<open>snippetData.mergedImageData\<close>,
  sends the payload and restores always-on-top. Reading the property of \<^verbatim>\<open>undefined\<close> or
  \<^verbatim>\<open>null\<close> throws, and so does the call of \<^verbatim>\<open>split\<close> on anything but a string; the
  \<^verbatim>\<open>catch\<close> block then restores always-on-top and logs. The \<^verbatim>\<open>finally\<close> block calls
  \<^verbatim>\<open>deleteFile(snippetData.screenSnippetPath)\<close>: reading the property can throw again,
  and \<^verbatim>\<open>fs.unlink\<close> throws a TypeError at once on a path that is neither a string nor
  a buffer (a buffer is taken as the bytes of the path). An exception of the \<^verbatim>\<open>finally\<close>
  block rejects the promise of the listener (the first component of the result).
\<close>

definition upload_snippet :: "nat \<Rightarrow> jsval \<Rightarrow> world \<Rightarrow> js_error option \<times> world" where
  "upload_snippet webContents snippetData w =
     (let w1 = emit CloseSnippingToolWindow w;
          w2 = (case get_prop snippetData ''mergedImageData'' of
                  Inr (JStr mergedImageData) \<Rightarrow>
                    verifyAndUpdateAlwaysOnTop
                      (emit (Send webContents
                               \<lparr>message = ''SUCCESS'', data = snd (split_comma mergedImageData),
                                type = fst (split_comma mergedImageData)\<rparr>) w1)
                | _ \<Rightarrow> verifyAndUpdateAlwaysOnTop w1)
      in case get_prop snippetData ''screenSnippetPath'' of
           Inr (JStr filePath) \<Rightarrow> (None, deleteFile filePath w2)
         | Inr (JBuf bytes) \<Rightarrow> (None, deleteFile (map (\<lambda>b. char_of (unat b)) bytes) w2)
         | _ \<Rightarrow> (Some TypeError, w2))"

text \<open>
  \<^verbatim>\<open>capture\<close>, second piece: what runs once the promise of \<^verbatim>\<open>execCmd\<close> has settled. A
  rejection goes to the \<^verbatim>\<open>catch\<close> block. With \<^verbatim>\<open>isMana\<close> the function hands over to the
  editor window and returns early; an exception of \<^verbatim>\<open>getImageSize\<close> goes to \<^verbatim>\<open>catch\<close>.
\<close>

definition capture_finish :: "nat \<Rightarrow> settled \<Rightarrow> world \<Rightarrow> world" where
  "capture_finish webContents outcome w =
     (case outcome of
        Rejected \<Rightarrow> verifyAndUpdateAlwaysOnTop w
      | Resolved \<Rightarrow>
          (if isMana w then
             (let w1 = emit CloseSnippingToolWindow w
              in case getImageSize w1 of
                   Inl _ \<Rightarrow> verifyAndUpdateAlwaysOnTop w1
                 | Inr dimensions \<Rightarrow>
                     emit (OnceUploadSnippet webContents)
                       (emit (CreateSnippingToolWindow (outputFileName w1) dimensions) w1))
           else
             (let (payload, w1) = convertFileToData w
              in verifyAndUpdateAlwaysOnTop (emit (Send webContents payload) w1))))"

text \<open>\<^verbatim>\<open>cancelCapture\<close>: nothing off Windows; else the tool is run with no arguments.\<close>

definition cancelCapture_start :: "platform \<Rightarrow> nat option \<Rightarrow> world \<Rightarrow> world" where
  "cancelCapture_start plat focused w =
     (if plat \<noteq> WindowsOS then w
      else execCmd (captureUtil w) [] (w\<lparr>focusedWindow := focused\<rparr>))"

definition cancelCapture_finish :: "platform \<Rightarrow> settled \<Rightarrow> world \<Rightarrow> world" where
  "cancelCapture_finish plat outcome w =
     (if plat \<noteq> WindowsOS then w else verifyAndUpdateAlwaysOnTop w)"

subsection \<open>Runs of the session\<close>

text \<open>
  The session as the constructor leaves it: no file name, no arguments, no child, no
  focused window, nothing to restore. The constructor computes \<open>tempDir\<close> and
  \<open>captureUtil\<close> from the platform and the install paths; both are read-only afterwards
  and enter here as values, with the state of the host.
\<close>

definition new_session ::
  "string \<Rightarrow> string \<Rightarrow> bool \<Rightarrow> bool \<Rightarrow> bool \<Rightarrow> (nat \<Rightarrow> bool) \<Rightarrow> filesystem
     \<Rightarrow> (byte list \<Rightarrow> (nat \<times> nat) option) \<Rightarrow> world" where
  "new_session dir util mainWin aot mana wins fs probe =
     \<lparr>tempDir = dir, captureUtil = util, outputFileName = None, captureUtilArgs = None,
      child = None, focusedWindow = None, shouldUpdateAlwaysOnTop = False,
      mainWindowExists = mainWin, alwaysOnTop = aot, isMana = mana, windowExists = wins,
      files = fs, sizeOf = probe, running = [], nextHandle = 0, effects = []\<rparr>"

text \<open>
  What can happen to the session, one event per synchronous piece: the two pieces of
  \<^verbatim>\<open>capture\<close> and of \<^verbatim>\<open>cancelCapture\<close>, a call of \<^verbatim>\<open>killChildProcess\<close>, the one-shot
  upload listener; and what the host does around it: an external process ends by itself,
  the capture tool writes a file, a requested \<^verbatim>\<open>fs.unlink\<close> completes (the file is gone)
  or fails (nothing changes, the callback logs), the main window opens or closes,
  \<^verbatim>\<open>isMana\<close> is set.
\<close>

datatype event =
    CaptureCalled nat string "nat option"
  | CaptureSettled nat settled
  | CancelCalled "nat option"
  | CancelSettled settled
  | KillCalled
  | UploadReceived nat jsval
  | ProcessEnded nat
  | ToolWrote string "byte list"
  | UnlinkSettled string bool
  | MainWindowSet bool
  | ManaSet bool

fun step :: "platform \<Rightarrow> world \<Rightarrow> event \<Rightarrow> world" where
  "step plat w (CaptureCalled now locale focused) = capture_start plat now locale focused w"
| "step plat w (CaptureSettled wc outcome) = capture_finish wc outcome w"
| "step plat w (CancelCalled focused) = cancelCapture_start plat focused w"
| "step plat w (CancelSettled outcome) = cancelCapture_finish plat outcome w"
| "step plat w KillCalled = killChildProcess w"
| "step plat w (UploadReceived wc snippetData) = snd (upload_snippet wc snippetData w)"
| "step plat w (ProcessEnded p) = w\<lparr>running := removeAll p (running w)\<rparr>"
| "step plat w (ToolWrote path bytes) = w\<lparr>files := (files w)(path := Inr bytes)\<rparr>"
| "step plat w (UnlinkSettled path ok) =
     (if ok then w\<lparr>files := (files w)(path := Inl ENOENT)\<rparr> else w)"
| "step plat w (MainWindowSet b) = w\<lparr>mainWindowExists := b\<rparr>"
| "step plat w (ManaSet b) = w\<lparr>isMana := b\<rparr>"

definition run :: "platform \<Rightarrow> world \<Rightarrow> event list \<Rightarrow> world" where
  "run plat w evs = foldl (step plat) w evs"

text \<open>
  One capture attempt on its own, nothing else in between: the call; the tool either
  writes its output file or not; the promise settles, rejected when the host has killed the
  child with \<^verbatim>\<open>killChildProcess\<close> (only \<^verbatim>\<open>kill\<close> sets \<^verbatim>\<open>error.killed\<close>); the second
  piece runs.
\<close>

definition capture_attempt ::
  "platform \<Rightarrow> nat \<Rightarrow> string \<Rightarrow> nat option \<Rightarrow> nat \<Rightarrow> byte list option \<Rightarrow> settled \<Rightarrow> world \<Rightarrow> world" where
  "capture_attempt plat now locale focused wc written outcome w =
     (let w1 = capture_start plat now locale focused w;
          w2 = (case written of
                  None \<Rightarrow> w1
                | Some bytes \<Rightarrow> step plat w1 (ToolWrote (output_name w now) bytes));
          w3 = (case outcome of Resolved \<Rightarrow> w2 | Rejected \<Rightarrow> killChildProcess w2)
      in capture_finish wc outcome w3)"

subsection \<open>Observations on the session\<close>

text \<open>
  At most one external process runs, and it is the one whose handle \<^verbatim>\<open>this.child\<close> holds.
\<close>

definition one_live :: "world \<Rightarrow> bool" where
  "one_live w = (case running w of [] \<Rightarrow> True | [p] \<Rightarrow> child w = Some p | _ \<Rightarrow> False)"

fun is_cancel :: "event \<Rightarrow> bool" where
  "is_cancel (CancelCalled focused) = True"
| "is_cancel e = False"

text \<open>The arguments of the calls of \<^verbatim>\<open>updateAlwaysOnTop\<close> among some effects, in order.\<close>

fun aot_updates :: "effect list \<Rightarrow> bool list" where
  "aot_updates [] = []"
| "aot_updates (UpdateAlwaysOnTop b # es) = b # aot_updates es"
| "aot_updates (e # es) = aot_updates es"


fun is_capture :: "event \<Rightarrow> bool" where
  "is_capture (CaptureCalled now lc focused) = True"
| "is_capture e = False"
section \<open>The API handler (main-api-handler)\<close>

subsection \<open>The command tags\<close>

text \<open>
  The members of the enum \<^verbatim>\<open>apiCmds\<close> that the handler names. The enum is declared in
  \<^verbatim>\<open>common/api-interface\<close>, which is not among the sources: the value of each member
  enters as a table \<open>tag\<close>, and a \<^verbatim>\<open>switch\<close> is the search for the first \<^verbatim>\<open>case\<close> label
  whose value is strictly equal to the scrutinee.
\<close>

datatype apiCmds =
    isOnline | setBadgeCount | registerProtocolHandler | registerLogRetriever | sendLogs
  | badgeDataUrl | activate | registerLogger | registerActivityDetection
  | registerDownloadHandler | showNotificationSettings | sanitize | bringToFront
  | openScreenPickerWindow | popupMenu | setLocale | keyPress | getMyPresence
  | openScreenSnippet | closeScreenSnippet | closeWindow | openScreenSharingIndicator
  | downloadManagerAction | openDownloadedItem | showDownloadedItem | clearDownloadedItems
  | restartApp | setIsInMeeting | memoryInfo | getConfigUrl | registerAnalyticsHandler
  | setCloudConfig | setIsMana | showNotification | closeNotification
  | closeAllWrapperWindows | setZoomLevel | aboutAppClipBoardData | closeMainWindow
  | minimizeMainWindow | maximizeMainWindow | unmaximizeMainWindow | browserLogin
  | setBroadcastMessage | handleSwiftSearchMessageEvents | connectCloud9Pipe
  | writeCloud9Pipe | closeCloud9Pipe | launchCloud9 | terminateCloud9 | updateAndRestart
  | downloadUpdate | checkForUpdates
  | getCurrentOriginUrl | isAeroGlassEnabled | showScreenSharePermissionDialog
  | getMediaAccessStatus | getSources | getNativeWindowHandle
  | getCitrixMediaRedirectionStatus
  | onSwiftSearchMessage

type_synonym tags = "apiCmds \<Rightarrow> jsval"

definition match_case :: "tags \<Rightarrow> apiCmds list \<Rightarrow> jsval \<Rightarrow> apiCmds option" where
  "match_case tag labels v = find (\<lambda>c. tag c = v) labels"

text \<open>The \<^verbatim>\<open>case\<close> labels of the three switches, in the order of the source.\<close>

definition on_labels :: "apiCmds list" where
  "on_labels =
     [isOnline, setBadgeCount, registerProtocolHandler, registerLogRetriever, sendLogs,
      badgeDataUrl, activate, registerLogger, registerActivityDetection,
      registerDownloadHandler, showNotificationSettings, sanitize, bringToFront,
      openScreenPickerWindow, popupMenu, setLocale, keyPress, getMyPresence,
      openScreenSnippet, closeScreenSnippet, closeWindow, openScreenSharingIndicator,
      downloadManagerAction, openDownloadedItem, showDownloadedItem, clearDownloadedItems,
      restartApp, setIsInMeeting, memoryInfo, getConfigUrl, registerAnalyticsHandler,
      setCloudConfig, setIsMana, showNotification, closeNotification,
      closeAllWrapperWindows, setZoomLevel, aboutAppClipBoardData, closeMainWindow,
      minimizeMainWindow, maximizeMainWindow, unmaximizeMainWindow, browserLogin,
      setBroadcastMessage, handleSwiftSearchMessageEvents, connectCloud9Pipe,
      writeCloud9Pipe, closeCloud9Pipe, launchCloud9, terminateCloud9, updateAndRestart,
      downloadUpdate, checkForUpdates]"

definition handle_labels :: "apiCmds list" where
  "handle_labels =
     [getCurrentOriginUrl, isAeroGlassEnabled, showScreenSharePermissionDialog,
      getMediaAccessStatus, getSources, getNativeWindowHandle,
      getCitrixMediaRedirectionStatus]"

definition log_labels :: "apiCmds list" where
  "log_labels = [showNotification, badgeDataUrl, openScreenPickerWindow, sendLogs, writeCloud9Pipe]"

subsection \<open>\<^verbatim>\<open>logApiCallParams\<close>\<close>

text \<open>
  A line of the log. \<open>ApiCallLine apiCmd properties\<close> stands for the line
  \<^verbatim>\<open>`main-api-handler: - ${apiCmd} - Properties: ${JSON.stringify(properties, null, 2)}`\<close>
  written with \<^verbatim>\<open>logger.info\<close>: the text is a function of the two values.
  \<open>ErrorLine text values\<close> is a call \<^verbatim>\<open>logger.error(text, ...values)\<close>.
\<close>

datatype log_line = ApiCallLine jsval jsval | ErrorLine string "jsval list"

text \<open>
  Building the text of the line can throw: the template literal converts \<open>apiCmd\<close> to a
  string, and \<^verbatim>\<open>JSON.stringify\<close> serialises the properties.
\<close>

definition api_call_line :: "jsval \<Rightarrow> jsval \<Rightarrow> js_error + log_line" where
  "api_call_line apiCmd properties =
     (if has_string_conversion apiCmd \<and> serialisable properties
      then Inr (ApiCallLine apiCmd properties)
      else Inl TypeError)"

definition hidden :: jsval where
  "hidden = JStr ''hidden''"

text \<open>\<^verbatim>\<open>{...v, k: x}\<close>: an own property \<open>k\<close> keeps its place, a new one goes last.\<close>

definition with_prop :: "string \<Rightarrow> jsval \<Rightarrow> (string \<times> jsval) list \<Rightarrow> (string \<times> jsval) list" where
  "with_prop k x kvs = AList.update k x kvs"

text \<open>
  The callback of \<^verbatim>\<open>arg.sources.map\<close>: five properties read from the source, the thumbnail
  replaced. Reading from \<^verbatim>\<open>undefined\<close> or \<^verbatim>\<open>null\<close> throws.
\<close>

definition hide_thumbnail :: "jsval \<Rightarrow> js_error + jsval" where
  "hide_thumbnail source =
     (case (get_prop source ''name'', get_prop source ''id'', get_prop source ''display_id'',
            get_prop source ''appIcon'') of
        (Inr n, Inr i, Inr d, Inr a) \<Rightarrow>
          Inr (JObj [(''name'', n), (''id'', i), (''thumbnail'', hidden),
                     (''display_id'', d), (''appIcon'', a)])
      | _ \<Rightarrow> Inl TypeError)"

fun map_sources :: "jsval list \<Rightarrow> js_error + jsval list" where
  "map_sources [] = Inr []"
| "map_sources (s # ss) =
     (case hide_thumbnail s of
        Inl e \<Rightarrow> Inl e
      | Inr s' \<Rightarrow> (case map_sources ss of Inl e \<Rightarrow> Inl e | Inr ss' \<Rightarrow> Inr (s' # ss')))"

text \<open>
  \<^verbatim>\<open>arg.sources.map(...)\<close>: on an array as above; on a typed array each element is a
  number, the callback's object is stored back as the number 0; any other value has no
  function \<^verbatim>\<open>map\<close>, and the call throws.
\<close>

definition sources_map :: "jsval \<Rightarrow> js_error + jsval" where
  "sources_map v =
     (case v of
        JArr ss \<Rightarrow> (case map_sources ss of Inl e \<Rightarrow> Inl e | Inr ss' \<Rightarrow> Inr (JArr ss'))
      | JBuf bs \<Rightarrow> Inr (JBuf (map (\<lambda>b. 0) bs))
      | _ \<Rightarrow> Inl TypeError)"

text \<open>
  \<^verbatim>\<open>logApiCallParams\<close>: the switch on \<^verbatim>\<open>arg.cmd\<close> with five cases and a default.
  \<open>other\<close> is the part of \<^verbatim>\<open>Buffer.from\<close> that is not modelled (see \<open>Buffer_from\<close>).
\<close>

definition logApiCallParams ::
  "tags \<Rightarrow> (jsval \<Rightarrow> js_error + byte list) \<Rightarrow> jsval \<Rightarrow> js_error + log_line" where
  "logApiCallParams tag other arg =
     (case get_prop arg ''cmd'' of
        Inl e \<Rightarrow> Inl e
      | Inr apiCmd \<Rightarrow>
         (let label = match_case tag log_labels apiCmd in
          if label = Some showNotification then
            (case get_prop arg ''notificationOpts'' of
               Inl e \<Rightarrow> Inl e
             | Inr opts \<Rightarrow>
                 api_call_line apiCmd
                   (JObj (with_prop ''data'' hidden (with_prop ''body'' hidden
                            (with_prop ''title'' hidden (own_props opts))))))
          else if label = Some badgeDataUrl then
            api_call_line apiCmd (JObj (with_prop ''dataUrl'' hidden (own_props arg)))
          else if label = Some openScreenPickerWindow then
            (case get_prop arg ''sources'' of
               Inl e \<Rightarrow> Inl e
             | Inr srcs \<Rightarrow>
                 (case sources_map srcs of
                    Inl e \<Rightarrow> Inl e
                  | Inr sources \<Rightarrow>
                      api_call_line apiCmd
                        (JObj (with_prop ''sources'' sources (own_props arg)))))
          else if label = Some sendLogs then
            (case get_prop arg ''logs'' of
               Inl e \<Rightarrow> Inl e
             | Inr logs \<Rightarrow>
                 api_call_line apiCmd
                   (JObj (with_prop ''logFiles'' hidden (own_props logs))))
          else if label = Some writeCloud9Pipe then
            (case get_prop arg ''data'' of
               Inl e \<Rightarrow> Inl e
             | Inr d \<Rightarrow>
                 (case Buffer_from other d of
                    Inl e \<Rightarrow> Inl e
                  | Inr bytes \<Rightarrow>
                      api_call_line apiCmd
                        (JObj (with_prop ''data'' (JStr (base64_encode bytes))
                                (own_props arg)))))
          else api_call_line apiCmd arg))"

subsection \<open>The two listeners\<close>

text \<open>
  An IPC event: the sender, and what \<^verbatim>\<open>isValidWindow(BrowserWindow.fromWebContents(event.sender))\<close>
  and \<^verbatim>\<open>isValidView(event.sender)\<close> answer for it (both functions belong to
  \<^verbatim>\<open>window-utils\<close>, which is not among the sources).
\<close>

record ipc_event =
  sender :: nat
  senderWindowValid :: bool
  senderViewValid :: bool

definition invalid_window_text :: string where
  "invalid_window_text = ''main-api-handler: invalid window try to perform action, ignoring action''"

definition no_args_text :: string where
  "no_args_text = ''main-api-handler: no args received. Unable to handle API call.''"

text \<open>
  The listener of \<^verbatim>\<open>ipcMain.on\<close>. The bodies of the cases call into the collaborators; they
  enter as \<open>handler\<close>, which takes the state of the host to its next state. The listener
  is an \<^verbatim>\<open>async\<close> function: an exception (\<open>Inl\<close>) rejects the promise it returns.
  The call of \<^verbatim>\<open>logApiCallParams\<close> stands before the switch and in no \<^verbatim>\<open>try\<close> block.
\<close>

definition on_symphonyApi ::
  "tags \<Rightarrow> (jsval \<Rightarrow> js_error + byte list)
     \<Rightarrow> (apiCmds \<Rightarrow> ipc_event \<Rightarrow> jsval \<Rightarrow> 'st \<Rightarrow> 'st) \<Rightarrow> ipc_event \<Rightarrow> jsval
     \<Rightarrow> 'st \<times> log_line list \<Rightarrow> js_error + 'st \<times> log_line list" where
  "on_symphonyApi tag other handler event arg s =
     (if \<not> (senderWindowValid event \<or> senderViewValid event) then
        (case get_prop arg ''cmd'' of
           Inl e \<Rightarrow> Inl e
         | Inr cmd \<Rightarrow> Inr (fst s, snd s @ [ErrorLine invalid_window_text [cmd]]))
      else if \<not> truthy arg then Inr (fst s, snd s @ [ErrorLine no_args_text []])
      else
        (case logApiCallParams tag other arg of
           Inl e \<Rightarrow> Inl e
         | Inr line \<Rightarrow>
             (case get_prop arg ''cmd'' of
                Inl e \<Rightarrow> Inl e
              | Inr cmd \<Rightarrow>
                  (case match_case tag on_labels cmd of
                     None \<Rightarrow> Inr (fst s, snd s @ [line])
                   | Some c \<Rightarrow> Inr (handler c event arg (fst s), snd s @ [line])))))"

text \<open>
  The listener of \<^verbatim>\<open>ipcMain.handle\<close>: the value it returns goes back to the caller; an
  exception rejects the caller's \<^verbatim>\<open>invoke\<close>. It writes no line for the call itself.
\<close>

definition handle_symphonyApi ::
  "tags \<Rightarrow> (apiCmds \<Rightarrow> ipc_event \<Rightarrow> jsval \<Rightarrow> 'st \<Rightarrow> jsval \<times> 'st) \<Rightarrow> ipc_event \<Rightarrow> jsval
     \<Rightarrow> 'st \<times> log_line list \<Rightarrow> js_error + jsval \<times> 'st \<times> log_line list" where
  "handle_symphonyApi tag handler event arg s =
     (if \<not> (senderWindowValid event \<or> senderViewValid event) then
        (case get_prop arg ''cmd'' of
           Inl e \<Rightarrow> Inl e
         | Inr cmd \<Rightarrow> Inr (JUndefined, fst s, snd s @ [ErrorLine invalid_window_text [cmd]]))
      else if \<not> truthy arg then Inr (JUndefined, fst s, snd s)
      else
        (case get_prop arg ''cmd'' of
           Inl e \<Rightarrow> Inl e
         | Inr cmd \<Rightarrow>
             (case match_case tag handle_labels cmd of
                None \<Rightarrow> Inr (JUndefined, fst s, snd s)
              | Some c \<Rightarrow>
                  (case handler c event arg (fst s) of
                     (ret, st) \<Rightarrow> Inr (ret, st, snd s)))))"

subsection \<open>The pod login flow\<close>

text \<open>The module's \<^verbatim>\<open>proxyDetails\<close>.\<close>

record IProxyDetails =
  username :: string
  password :: string
  hostname :: string
  retries :: nat

text \<open>What the flow asks of its collaborators, in the order asked.\<close>

datatype call =
    Fetch string bool
  | OpenExternal string
  | SetMainWindowOrigin string
  | LoadURL string
  | CreateBasicAuthWindow string bool
  | UpdateUserConfig string jsval

text \<open>
  The module's variables \<^verbatim>\<open>proxyDetails\<close>, \<^verbatim>\<open>loginUrl\<close>, \<^verbatim>\<open>formattedPodUrl\<close>,
  \<^verbatim>\<open>credentialsPromise\<close> and \<^verbatim>\<open>credentialsPromiseRefHolder.resolutionCallback\<close>; then
  the host around them. A promise is its index in \<open>promises\<close>, which says for each promise
  created whether it is resolved; \<open>resolved\<close> lists the calls of resolution callbacks.
  \<open>mainWebContentsAlive\<close> says whether \<^verbatim>\<open>getMainWebContents()\<close> gives web contents that
  are not destroyed; \<open>userConfigUrl\<close> and \<open>globalConfigUrl\<close> are the field \<^verbatim>\<open>url\<close> of the
  two configurations.
\<close>

record login =
  proxyDetails :: IProxyDetails
  loginUrl :: string
  formattedPodUrl :: string
  credentialsPromise :: "nat option"
  resolutionCallback :: "nat option"
  promises :: "bool list"
  resolved :: "nat list"
  mainWebContentsAlive :: bool
  mainWindowOrigin :: "string option"
  userConfigUrl :: jsval
  globalConfigUrl :: jsval
  calls :: "call list"

definition initial_login :: "bool \<Rightarrow> jsval \<Rightarrow> jsval \<Rightarrow> login" where
  "initial_login alive userUrl globalUrl =
     \<lparr>proxyDetails = \<lparr>username = '''', password = '''', hostname = '''', retries = 0\<rparr>,
      loginUrl = '''', formattedPodUrl = '''', credentialsPromise = None,
      resolutionCallback = None, promises = [], resolved = [],
      mainWebContentsAlive = alive, mainWindowOrigin = None,
      userConfigUrl = userUrl, globalConfigUrl = globalUrl, calls = []\<rparr>"

definition request :: "call \<Rightarrow> login \<Rightarrow> login" where
  "request c s = s\<lparr>calls := calls s @ [c]\<rparr>"

definition getBrowserLoginUrl :: "string \<Rightarrow> string" where
  "getBrowserLoginUrl pod =
     pod @ ''/login/sso/initsso?RelayState='' @ pod
       @ ''/client-bff/device-login/index.html?callbackScheme=symphony&action=login''"

definition AUTH_STATUS_PATH :: string where
  "AUTH_STATUS_PATH = ''/login/checkauth?type=user''"

text \<open>
  \<^verbatim>\<open>loadPodUrl(proxyLogin)\<close> up to the request: the probe of the authentication status,
  with the \<^verbatim>\<open>onLogin\<close> hook attached when \<open>proxyLogin\<close> holds.
\<close>

definition loadPodUrl :: "bool \<Rightarrow> login \<Rightarrow> login" where
  "loadPodUrl proxyLogin s = request (Fetch (formattedPodUrl s @ AUTH_STATUS_PATH) proxyLogin) s"


definition onLogin_answer :: "login \<Rightarrow> (string \<times> string) option" where
  "onLogin_answer s =
     (case credentialsPromise s of
        None \<Rightarrow> Some (username (proxyDetails s), password (proxyDetails s))
      | Some i \<Rightarrow>
          if i < length (promises s) \<and> promises s ! i
          then Some (username (proxyDetails s), password (proxyDetails s))
          else None)"

text \<open>
  The \<^verbatim>\<open>then\<close> callback, given the parsed body \<^verbatim>\<open>authResponse\<close>. An exception in it is
  handed to the \<^verbatim>\<open>catch\<close> callback as an error with neither type nor code.
\<close>

record fetch_error =
  etype :: jsval
  ecode :: jsval

definition proxy_failure :: "bool \<Rightarrow> fetch_error \<Rightarrow> bool" where
  "proxy_failure proxyLogin error \<longleftrightarrow>
     (etype error = JStr ''proxy'' \<and> ecode error = JStr ''PROXY_AUTH_FAILED'')
     \<or> (ecode error = JStr ''ERR_TOO_MANY_RETRIES'' \<and> proxyLogin)"

text \<open>
  The \<^verbatim>\<open>catch\<close> callback: a new promise whose resolution callback is kept in the holder,
  the prompt for credentials (first attempt when \<^verbatim>\<open>retries === 0\<close>), and then
  \<^verbatim>\<open>proxyDetails.retries += 1\<close>, all before any credentials arrive.
\<close>

definition loadPodUrl_catch :: "bool \<Rightarrow> fetch_error \<Rightarrow> login \<Rightarrow> login" where
  "loadPodUrl_catch proxyLogin error s =
     (if proxy_failure proxyLogin error then
        (let p = length (promises s);
             s1 = s\<lparr>promises := promises s @ [False], credentialsPromise := Some p,
                    resolutionCallback := Some p\<rparr>;
             s2 = request (CreateBasicAuthWindow (hostname (proxyDetails s1))
                             (retries (proxyDetails s1) = 0)) s1
         in s2\<lparr>proxyDetails := (proxyDetails s2)\<lparr>retries := retries (proxyDetails s2) + 1\<rparr>\<rparr>)
      else s)"

definition loadPodUrl_then :: "bool \<Rightarrow> jsval \<Rightarrow> login \<Rightarrow> login" where
  "loadPodUrl_then proxyLogin authResponse s =
     (case get_prop authResponse ''authenticationType'' of
        Inl e \<Rightarrow> loadPodUrl_catch proxyLogin \<lparr>etype = JUndefined, ecode = JUndefined\<rparr> s
      | Inr authenticationType \<Rightarrow>
          if authenticationType = JStr ''sso'' then request (OpenExternal (loginUrl s)) s
          else if mainWebContentsAlive s then
            request (LoadURL (formattedPodUrl s))
              (request (SetMainWindowOrigin (formattedPodUrl s))
                 (s\<lparr>mainWindowOrigin := Some (formattedPodUrl s)\<rparr>))
          else s)"

text \<open>
  The callback given to \<^verbatim>\<open>createBasicAuthWindow\<close>, run when the user submits credentials:
  they are stored, the callback in the holder is called, the flow starts again with
  \<open>proxyLogin\<close> set. Without a callback in the holder the call throws.
\<close>

definition basicAuth_callback :: "string \<Rightarrow> string \<Rightarrow> login \<Rightarrow> js_error + login" where
  "basicAuth_callback user pass s =
     (let s1 = s\<lparr>proxyDetails := (proxyDetails s)\<lparr>username := user, password := pass\<rparr>\<rparr>
      in case resolutionCallback s1 of
           None \<Rightarrow> Inl TypeError
         | Some p \<Rightarrow>
             Inr (loadPodUrl True
                    (s1\<lparr>promises := (promises s1)[p := True], resolved := resolved s1 @ [p]\<rparr>)))"

subsection \<open>The case \<^verbatim>\<open>browserLogin\<close>\<close>

text \<open>
  What \<^verbatim>\<open>whitelistHandler.parseDomain\<close> returns. The function is not among the sources and
  enters as a parameter.
\<close>

record domain_parts =
  subdomain :: string
  domain :: string
  tld :: string

text \<open>
  The candidate address. \<open>urlFromCmd\<close> is what \<^verbatim>\<open>getCommandLineArgs(process.argv, '--url=', false)\<close>
  found: the whole argument, or \<^verbatim>\<open>null\<close>; \<^verbatim>\<open>substr(6)\<close> drops the six characters of
  \<^verbatim>\<open>--url=\<close>.
\<close>

definition podUrl :: "string option \<Rightarrow> jsval \<Rightarrow> jsval \<Rightarrow> jsval" where
  "podUrl urlFromCmd userConfigURL globalConfigURL =
     (if truthy_str urlFromCmd then JStr (drop 6 (the urlFromCmd))
      else if truthy userConfigURL then userConfigURL
      else globalConfigURL)"

definition format_pod_url :: "domain_parts \<Rightarrow> string" where
  "format_pod_url d = ''https://'' @ subdomain d @ ''.'' @ domain d @ tld d"

text \<open>
  The body of the case: the user configuration is updated (the address only when the pod is
  not configured yet), the address is chosen and parsed, the two URLs are stored, the
  probe starts. The configuration (\<^verbatim>\<open>config-handler\<close>, not among the sources) is taken
  as a store that gives back what was last written to it.
\<close>

definition browserLogin_case ::
  "(jsval \<Rightarrow> domain_parts) \<Rightarrow> string option \<Rightarrow> jsval \<Rightarrow> login \<Rightarrow> js_error + login" where
  "browserLogin_case parseDomain urlFromCmd arg s =
     (case (get_prop arg ''browserLoginAutoConnect'', get_prop arg ''isPodConfigured'',
            get_prop arg ''newPodUrl'') of
        (Inr autoConnect, Inr isPodConfigured, Inr newPodUrl) \<Rightarrow>
          (let s1 = request (UpdateUserConfig ''browserLoginAutoConnect'' autoConnect) s;
               s2 = (if \<not> truthy isPodConfigured
                     then request (UpdateUserConfig ''url'' newPodUrl)
                            (s1\<lparr>userConfigUrl := newPodUrl\<rparr>)
                     else s1);
               url = podUrl urlFromCmd (userConfigUrl s2) (globalConfigUrl s2);
               formatted = format_pod_url (parseDomain url)
           in Inr (loadPodUrl False
                     (s2\<lparr>formattedPodUrl := formatted,
                         loginUrl := getBrowserLoginUrl formatted\<rparr>)))
      | _ \<Rightarrow> Inl TypeError)"

text \<open>
  Modelled from the spec: \<^verbatim>\<open>parseDomain\<close> of \<^verbatim>\<open>whitelist-handler\<close> is not among the sources.
  The spec has it "parse the address into subdomain/domain/top-level-domain components",
  with \<^verbatim>\<open>acme.symphony.com\<close> giving \<^verbatim>\<open>acme\<close>, \<^verbatim>\<open>symphony\<close> and \<^verbatim>\<open>.com\<close>: the last label
  with its dot, the label before it, and what comes before that.
\<close>

fun split_dots :: "string \<Rightarrow> string list" where
  "split_dots [] = [[]]"
| "split_dots (c # cs) =
     (if c = CHR ''.'' then [] # split_dots cs
      else (case split_dots cs of [] \<Rightarrow> [[c]] | l # ls \<Rightarrow> (c # l) # ls))"

fun join_dots :: "string list \<Rightarrow> string" where
  "join_dots [] = []"
| "join_dots [l] = l"
| "join_dots (l # ls) = l @ ''.'' @ join_dots ls"

definition parseDomain_spec :: "jsval \<Rightarrow> domain_parts" where
  "parseDomain_spec v =
     (case v of
        JStr s \<Rightarrow>
          (let ls = split_dots s; n = length ls in
           if n < 2 then \<lparr>subdomain = '''', domain = s, tld = ''''\<rparr>
           else \<lparr>subdomain = join_dots (take (n - 2) ls), domain = ls ! (n - 2),
                 tld = ''.'' @ ls ! (n - 1)\<rparr>)
      | _ \<Rightarrow> \<lparr>subdomain = '''', domain = '''', tld = ''''\<rparr>)"


subsection \<open>Runs of the login flow\<close>



subsection \<open>Observations on the log\<close>

text \<open>
  Two objects that differ at most in the values of the properties named in \<open>ks\<close>: the
  same properties in the same order, and equal values under every other name.
\<close>

definition same_but :: "string list \<Rightarrow> (string \<times> jsval) list \<Rightarrow> (string \<times> jsval) list \<Rightarrow> bool" where
  "same_but ks ps qs =
     list_all2 (\<lambda>p q. fst p = fst q \<and> (fst p \<in> set ks \<or> snd p = snd q)) ps qs"

text \<open>Two screen sources that differ at most in what the log does not read (the thumbnail).\<close>

definition same_source :: "jsval \<Rightarrow> jsval \<Rightarrow> bool" where
  "same_source a b \<longleftrightarrow>
     get_prop a ''name'' = get_prop b ''name'' \<and> get_prop a ''id'' = get_prop b ''id''
     \<and> get_prop a ''display_id'' = get_prop b ''display_id''
     \<and> get_prop a ''appIcon'' = get_prop b ''appIcon''"

text \<open>A sample table of tags for the examples: some members under their own names.\<close>

definition sample_tag :: tags where
  "sample_tag c =
     (case map_of
        [(showNotification, ''showNotification''), (badgeDataUrl, ''badgeDataUrl''),
         (openScreenPickerWindow, ''openScreenPickerWindow''), (sendLogs, ''sendLogs''),
         (writeCloud9Pipe, ''writeCloud9Pipe''), (isOnline, ''isOnline''),
         (getSources, ''getSources'')] c of
        Some n \<Rightarrow> JStr n
      | None \<Rightarrow> JNull)"

chapter \<open>Properties\<close>

section \<open>Base64 round trip\<close>

lemma index_of_nth: "distinct xs \<Longrightarrow> n < length xs \<Longrightarrow> index_of (xs ! n) xs = Some n"
proof (induction xs arbitrary: n)
  case Nil
  then show ?case by simp
next
  case (Cons y ys)
  show ?case
  proof (cases n)
    case 0
    then show ?thesis by simp
  next
    case (Suc m)
    with Cons.prems have "ys ! m \<in> set ys" "y \<notin> set ys" by auto
    then have "ys ! m \<noteq> y" by auto
    with Cons Suc show ?thesis by simp
  qed
qed

lemma b64_alphabet_distinct: "distinct b64_alphabet"
  by (simp add: b64_alphabet_def)

lemma b64_alphabet_length: "length b64_alphabet = 64"
  by (simp add: b64_alphabet_def)

lemma b64_val_char: "n < 64 \<Longrightarrow> b64_val (b64_char n) = Some n"
  by (simp add: b64_val_def b64_char_def index_of_nth b64_alphabet_distinct b64_alphabet_length)

lemma b64_char_not_pad: "b64_char n \<noteq> CHR ''=''"
proof -
  have "b64_alphabet ! (n mod 64) \<in> set b64_alphabet"
    by (rule nth_mem) (simp add: b64_alphabet_length)
  moreover have "CHR ''='' \<notin> set b64_alphabet"
    by (simp add: b64_alphabet_def)
  ultimately show ?thesis
    unfolding b64_char_def by metis
qed

lemma unat_byte_lt: "unat (a :: byte) < 256"
  using unsigned_less [of a, where ?'a = nat] by simp

lemma sextet0_lt: "sextet0 a < 64"
  using unat_byte_lt [of a] by (simp add: sextet0_def)

lemma sextet1_lt: "sextet1 a b < 64"
proof -
  have "unat b div 16 < 16" using unat_byte_lt [of b] by simp
  moreover have "unat a mod 4 < 4" by simp
  ultimately show ?thesis unfolding sextet1_def by linarith
qed

lemma sextet2_lt: "sextet2 b c < 64"
proof -
  have "unat c div 64 < 4" using unat_byte_lt [of c] by simp
  moreover have "unat b mod 16 < 16" by simp
  ultimately show ?thesis unfolding sextet2_def by linarith
qed

lemma sextet3_lt: "sextet3 c < 64"
  by (simp add: sextet3_def)

lemma octet0_sextets: "octet0 (sextet0 a) (sextet1 a b) = a"
proof -
  have "unat b div 16 < 16" using unat_byte_lt [of b] by simp
  then have "((unat a mod 4) * 16 + unat b div 16) div 16 = unat a mod 4" by simp
  then have "unat a div 4 * 4 + ((unat a mod 4) * 16 + unat b div 16) div 16 = unat a" by simp
  then show ?thesis by (simp only: octet0_def sextet0_def sextet1_def of_nat_unat unsigned_word_eqI ucast_id)
qed

lemma octet1_sextets: "octet1 (sextet1 a b) (sextet2 b c) = b"
proof -
  have x: "unat b div 16 < 16" and z: "unat c div 64 < 4"
    using unat_byte_lt [of b] unat_byte_lt [of c] by simp_all
  have "((unat a mod 4) * 16 + unat b div 16) mod 16 = unat b div 16" using x by simp
  moreover have "((unat b mod 16) * 4 + unat c div 64) div 4 = unat b mod 16" using z by simp
  ultimately have "(((unat a mod 4) * 16 + unat b div 16) mod 16) * 16
      + ((unat b mod 16) * 4 + unat c div 64) div 4 = unat b" by simp
  then show ?thesis by (simp only: octet1_def sextet1_def sextet2_def of_nat_unat ucast_id)
qed

lemma octet2_sextets: "octet2 (sextet2 b c) (sextet3 c) = c"
proof -
  have z: "unat c div 64 < 4" using unat_byte_lt [of c] by simp
  have "((unat b mod 16) * 4 + unat c div 64) mod 4 = unat c div 64" using z by simp
  then have "(((unat b mod 16) * 4 + unat c div 64) mod 4) * 64 + unat c mod 64 = unat c" by simp
  then show ?thesis by (simp only: octet2_def sextet2_def sextet3_def of_nat_unat ucast_id)
qed

lemma base64_roundtrip: "base64_decode (base64_encode bs) = Some bs"
proof (induction bs rule: base64_encode.induct)
  case 1
  show ?case by simp
next
  case (2 a)
  show ?case
    by (simp add: b64_val_char sextet0_lt sextet1_lt octet0_sextets)
next
  case (3 a b)
  show ?case
    by (simp add: b64_val_char sextet0_lt sextet1_lt sextet2_lt b64_char_not_pad
        octet0_sextets octet1_sextets)
next
  case (4 a b c rest)
  then show ?case
    by (simp add: b64_val_char sextet0_lt sextet1_lt sextet2_lt sextet3_lt b64_char_not_pad
        octet0_sextets octet1_sextets octet2_sextets)
qed

section \<open>The effects of the pieces\<close>

lemma effects_emit: "effects (emit e w) = effects w @ [e]"
  by (simp add: emit_def)

lemma effects_verifyAndUpdateAlwaysOnTop:
  "effects (verifyAndUpdateAlwaysOnTop w) =
     effects w @ (if shouldUpdateAlwaysOnTop w then [UpdateAlwaysOnTop True] else [])"
  by (simp add: verifyAndUpdateAlwaysOnTop_def updateAlwaysOnTop_def emit_def)

lemma emit_fields [simp]:
  "shouldUpdateAlwaysOnTop (emit e w) = shouldUpdateAlwaysOnTop w"
  "alwaysOnTop (emit e w) = alwaysOnTop w"
  "files (emit e w) = files w"
  "isMana (emit e w) = isMana w"
  "mainWindowExists (emit e w) = mainWindowExists w"
  "outputFileName (emit e w) = outputFileName w"
  "focusedWindow (emit e w) = focusedWindow w"
  "windowExists (emit e w) = windowExists w"
  by (simp_all add: emit_def)

lemma getImageSize_emit [simp]: "getImageSize (emit e w) = getImageSize w"
  by (simp add: getImageSize_def emit_def split: sum.splits)

lemma effects_upload_snippet:
  "effects (snd (upload_snippet wc snippetData w)) =
     effects w @ [CloseSnippingToolWindow]
       @ (case get_prop snippetData ''mergedImageData'' of
            Inr (JStr m) \<Rightarrow>
              [Send wc \<lparr>message = ''SUCCESS'', data = snd (split_comma m), type = fst (split_comma m)\<rparr>]
          | _ \<Rightarrow> [])
       @ (if shouldUpdateAlwaysOnTop w then [UpdateAlwaysOnTop True] else [])
       @ (case get_prop snippetData ''screenSnippetPath'' of
            Inr (JStr filePath) \<Rightarrow> [Unlink filePath]
          | Inr (JBuf bytes) \<Rightarrow> [Unlink (map (\<lambda>b. char_of (unat b)) bytes)]
          | _ \<Rightarrow> [])"
  by (simp add: upload_snippet_def deleteFile_def verifyAndUpdateAlwaysOnTop_def
      updateAlwaysOnTop_def emit_def Let_def split: sum.splits jsval.splits)

lemma effects_capture_finish_mana:
  "isMana w \<Longrightarrow>
     effects (capture_finish wc Resolved w) =
       effects w @ CloseSnippingToolWindow
         # (case getImageSize w of
              Inl _ \<Rightarrow> if shouldUpdateAlwaysOnTop w then [UpdateAlwaysOnTop True] else []
            | Inr dimensions \<Rightarrow>
                [CreateSnippingToolWindow (outputFileName w) dimensions, OnceUploadSnippet wc])"
  by (simp add: capture_finish_def Let_def effects_verifyAndUpdateAlwaysOnTop effects_emit
      split: sum.splits)

section \<open>One external process at a time\<close>

lemma one_live_iff:
  "one_live w \<longleftrightarrow> running w = [] \<or> (\<exists>p. running w = [p] \<and> child w = Some p)"
  by (auto simp: one_live_def split: list.splits)

lemma running_emit [simp]: "running (emit e w) = running w"
  and child_emit [simp]: "child (emit e w) = child w"
  by (simp_all add: emit_def)

lemma one_live_emit [simp]: "one_live (emit e w) = one_live w"
  by (simp add: one_live_iff)

lemma running_verify [simp]: "running (verifyAndUpdateAlwaysOnTop w) = running w"
  and child_verify [simp]: "child (verifyAndUpdateAlwaysOnTop w) = child w"
  by (simp_all add: verifyAndUpdateAlwaysOnTop_def updateAlwaysOnTop_def)

lemma one_live_verify [simp]: "one_live (verifyAndUpdateAlwaysOnTop w) = one_live w"
  by (simp add: one_live_iff)

lemma one_live_deleteFile [simp]: "one_live (deleteFile f w) = one_live w"
  by (simp add: one_live_iff deleteFile_def)

lemma one_live_convert [simp]: "one_live (convertFileToData_finally w) = one_live w"
  by (simp add: convertFileToData_finally_def Let_def split: option.splits)

lemma one_live_killChildProcess: "one_live w \<Longrightarrow> one_live (killChildProcess w)"
  by (auto simp: one_live_iff killChildProcess_def split: option.splits)

lemma running_killChildProcess:
  "one_live w \<Longrightarrow> child w \<noteq> None \<Longrightarrow> running (killChildProcess w) = []"
  by (auto simp: one_live_iff killChildProcess_def split: option.splits)

lemma one_live_execCmd: "running w = [] \<Longrightarrow> one_live (execCmd util args w)"
  by (simp add: one_live_iff execCmd_def)

lemma one_live_no_child: "one_live w \<Longrightarrow> child w = None \<Longrightarrow> running w = []"
  by (auto simp: one_live_iff)

lemma one_live_capture_suspend [simp]: "one_live (capture_suspend plat w) = one_live w"
  by (simp add: one_live_iff capture_suspend_def updateAlwaysOnTop_def Let_def)

lemma one_live_capture_prepare [simp]:
  "one_live (capture_prepare plat now locale focused w) = one_live w"
  by (simp add: one_live_iff capture_prepare_def)

lemma one_live_capture_spawn: "one_live w \<Longrightarrow> one_live (capture_spawn w)"
  unfolding capture_spawn_def Let_def
  by (rule one_live_execCmd) (simp add: running_killChildProcess one_live_no_child)

lemma one_live_capture_start:
  "one_live w \<Longrightarrow> one_live (capture_start plat now locale focused w)"
  by (simp add: capture_start_def one_live_capture_spawn)

lemma one_live_capture_finish: "one_live w \<Longrightarrow> one_live (capture_finish wc outcome w)"
  by (simp add: capture_finish_def convertFileToData_def Let_def split: settled.splits sum.splits)

lemma one_live_upload: "one_live w \<Longrightarrow> one_live (snd (upload_snippet wc snippetData w))"
  by (simp add: upload_snippet_def Let_def split: sum.splits jsval.splits)

lemma one_live_step:
  assumes "one_live w" and "plat \<noteq> WindowsOS \<or> \<not> is_cancel e"
  shows "one_live (step plat w e)"
proof (cases e)
  case (CaptureCalled now lc focused)
  with assms(1) show ?thesis by (simp add: one_live_capture_start)
next
  case (CaptureSettled wc outcome)
  with assms(1) show ?thesis by (simp add: one_live_capture_finish)
next
  case (CancelCalled f)
  with assms show ?thesis by (simp add: cancelCapture_start_def)
next
  case (CancelSettled s)
  with assms(1) show ?thesis by (simp add: cancelCapture_finish_def)
next
  case KillCalled
  with assms(1) show ?thesis by (simp add: one_live_killChildProcess)
next
  case (UploadReceived wc snippetData)
  with assms(1) show ?thesis by (simp add: one_live_upload)
next
  case (ProcessEnded p)
  from assms(1) have "one_live (w\<lparr>running := removeAll p (running w)\<rparr>)"
    unfolding one_live_iff by (cases "running w = [p]") auto
  with ProcessEnded show ?thesis by simp
next
  case (ToolWrote path bytes)
  with assms(1) show ?thesis by (simp add: one_live_iff)
next
  case (UnlinkSettled path ok)
  with assms(1) show ?thesis by (simp add: one_live_iff)
next
  case (MainWindowSet b)
  with assms(1) show ?thesis by (simp add: one_live_iff)
next
  case (ManaSet b)
  with assms(1) show ?thesis by (simp add: one_live_iff)
qed

lemma one_live_run:
  "one_live w \<Longrightarrow> plat \<noteq> WindowsOS \<or> \<not> list_ex is_cancel evs \<Longrightarrow> one_live (run plat w evs)"
  unfolding run_def
proof (induction evs arbitrary: w)
  case Nil
  then show ?case by simp
next
  case (Cons e evs)
  from Cons.prems have "one_live (step plat w e)"
    by (intro one_live_step) auto
  moreover from Cons.prems have "plat \<noteq> WindowsOS \<or> \<not> list_ex is_cancel evs" by auto
  ultimately show ?case using Cons.IH by simp
qed

lemma one_live_new_session: "one_live (new_session dir util mw aot mana wins fs probe)"
  by (simp add: one_live_iff new_session_def)

section \<open>What each piece of a capture changes\<close>

lemma string_of_nat_digit: "n < 10 \<Longrightarrow> string_of_nat n = [char_of (48 + n)]"
  by (simp add: string_of_nat.simps)

lemma effects_capture_suspend:
  "effects (capture_suspend plat w) =
     effects w @ (if mainWindowExists w \<and> plat = WindowsOS \<and> alwaysOnTop w
                  then [UpdateAlwaysOnTop False] else [])"
  by (simp add: capture_suspend_def updateAlwaysOnTop_def emit_def Let_def)

lemma capture_suspend_fields [simp]:
  "child (capture_suspend plat w) = child w"
  "running (capture_suspend plat w) = running w"
  "nextHandle (capture_suspend plat w) = nextHandle w"
  "captureUtil (capture_suspend plat w) = captureUtil w"
  "tempDir (capture_suspend plat w) = tempDir w"
  "isMana (capture_suspend plat w) = isMana w"
  "files (capture_suspend plat w) = files w"
  "mainWindowExists (capture_suspend plat w) = mainWindowExists w"
  "windowExists (capture_suspend plat w) = windowExists w"
  "sizeOf (capture_suspend plat w) = sizeOf w"
  by (simp_all add: capture_suspend_def updateAlwaysOnTop_def emit_def Let_def)

lemma capture_suspend_aot:
  "alwaysOnTop (capture_suspend plat w) =
     (if mainWindowExists w \<and> plat = WindowsOS then False else alwaysOnTop w)"
  "shouldUpdateAlwaysOnTop (capture_suspend plat w) =
     (if mainWindowExists w \<and> plat = WindowsOS then alwaysOnTop w else shouldUpdateAlwaysOnTop w)"
  by (simp_all add: capture_suspend_def updateAlwaysOnTop_def emit_def Let_def)

lemma output_name_suspend [simp]: "output_name (capture_suspend plat w) now = output_name w now"
  by (simp add: output_name_def)

lemma capture_prepare_fields [simp]:
  "child (capture_prepare plat now lc focused w) = child w"
  "running (capture_prepare plat now lc focused w) = running w"
  "nextHandle (capture_prepare plat now lc focused w) = nextHandle w"
  "captureUtil (capture_prepare plat now lc focused w) = captureUtil w"
  "isMana (capture_prepare plat now lc focused w) = isMana w"
  "files (capture_prepare plat now lc focused w) = files w"
  "effects (capture_prepare plat now lc focused w) = effects w"
  "alwaysOnTop (capture_prepare plat now lc focused w) = alwaysOnTop w"
  "shouldUpdateAlwaysOnTop (capture_prepare plat now lc focused w) = shouldUpdateAlwaysOnTop w"
  "mainWindowExists (capture_prepare plat now lc focused w) = mainWindowExists w"
  "windowExists (capture_prepare plat now lc focused w) = windowExists w"
  "sizeOf (capture_prepare plat now lc focused w) = sizeOf w"
  "tempDir (capture_prepare plat now lc focused w) = tempDir w"
  "outputFileName (capture_prepare plat now lc focused w) = Some (output_name w now)"
  "captureUtilArgs (capture_prepare plat now lc focused w)
     = Some (capture_args plat (isMana w) (output_name w now) lc)"
  "focusedWindow (capture_prepare plat now lc focused w) = focused"
  by (simp_all add: capture_prepare_def)

lemma killChildProcess_fields [simp]:
  "child (killChildProcess w) = child w"
  "nextHandle (killChildProcess w) = nextHandle w"
  "captureUtil (killChildProcess w) = captureUtil w"
  "captureUtilArgs (killChildProcess w) = captureUtilArgs w"
  "outputFileName (killChildProcess w) = outputFileName w"
  "focusedWindow (killChildProcess w) = focusedWindow w"
  "isMana (killChildProcess w) = isMana w"
  "files (killChildProcess w) = files w"
  "alwaysOnTop (killChildProcess w) = alwaysOnTop w"
  "shouldUpdateAlwaysOnTop (killChildProcess w) = shouldUpdateAlwaysOnTop w"
  "mainWindowExists (killChildProcess w) = mainWindowExists w"
  "windowExists (killChildProcess w) = windowExists w"
  "sizeOf (killChildProcess w) = sizeOf w"
  "tempDir (killChildProcess w) = tempDir w"
  by (simp_all add: killChildProcess_def emit_def split: option.splits)

lemma effects_killChildProcess:
  "effects (killChildProcess w) = effects w @ (case child w of None \<Rightarrow> [] | Some p \<Rightarrow> [Kill p])"
  by (simp add: killChildProcess_def emit_def split: option.splits)

lemma running_killChildProcess_eq:
  "running (killChildProcess w) = (case child w of None \<Rightarrow> running w | Some p \<Rightarrow> removeAll p (running w))"
  by (simp add: killChildProcess_def emit_def split: option.splits)

lemma execCmd_fields [simp]:
  "child (execCmd util args w) = Some (nextHandle w)"
  "running (execCmd util args w) = running w @ [nextHandle w]"
  "nextHandle (execCmd util args w) = Suc (nextHandle w)"
  "effects (execCmd util args w) = effects w @ [ExecFile (nextHandle w) util args]"
  "captureUtil (execCmd util args w) = captureUtil w"
  "captureUtilArgs (execCmd util args w) = captureUtilArgs w"
  "outputFileName (execCmd util args w) = outputFileName w"
  "focusedWindow (execCmd util args w) = focusedWindow w"
  "isMana (execCmd util args w) = isMana w"
  "files (execCmd util args w) = files w"
  "alwaysOnTop (execCmd util args w) = alwaysOnTop w"
  "shouldUpdateAlwaysOnTop (execCmd util args w) = shouldUpdateAlwaysOnTop w"
  "mainWindowExists (execCmd util args w) = mainWindowExists w"
  "windowExists (execCmd util args w) = windowExists w"
  "sizeOf (execCmd util args w) = sizeOf w"
  "tempDir (execCmd util args w) = tempDir w"
  by (simp_all add: execCmd_def emit_def)

lemma capture_spawn_fields [simp]:
  "child (capture_spawn w) = Some (nextHandle w)"
  "outputFileName (capture_spawn w) = outputFileName w"
  "focusedWindow (capture_spawn w) = focusedWindow w"
  "isMana (capture_spawn w) = isMana w"
  "files (capture_spawn w) = files w"
  "alwaysOnTop (capture_spawn w) = alwaysOnTop w"
  "shouldUpdateAlwaysOnTop (capture_spawn w) = shouldUpdateAlwaysOnTop w"
  "mainWindowExists (capture_spawn w) = mainWindowExists w"
  "windowExists (capture_spawn w) = windowExists w"
  "sizeOf (capture_spawn w) = sizeOf w"
  "tempDir (capture_spawn w) = tempDir w"
  "captureUtil (capture_spawn w) = captureUtil w"
  "captureUtilArgs (capture_spawn w) = captureUtilArgs w"
  "nextHandle (capture_spawn w) = Suc (nextHandle w)"
  by (simp_all add: capture_spawn_def Let_def)

lemma effects_capture_spawn:
  "effects (capture_spawn w) =
     effects w @ (case child w of None \<Rightarrow> [] | Some p \<Rightarrow> [Kill p])
       @ [ExecFile (nextHandle w) (captureUtil w)
            (case captureUtilArgs w of None \<Rightarrow> [] | Some args \<Rightarrow> args)]"
  by (simp add: capture_spawn_def Let_def effects_killChildProcess split: option.splits)

lemma running_capture_spawn:
  "running (capture_spawn w) =
     (case child w of None \<Rightarrow> running w | Some p \<Rightarrow> removeAll p (running w)) @ [nextHandle w]"
  by (simp add: capture_spawn_def Let_def running_killChildProcess_eq split: option.splits)

lemma capture_start_fields [simp]:
  "child (capture_start plat now lc focused w) = Some (nextHandle w)"
  "outputFileName (capture_start plat now lc focused w) = Some (output_name w now)"
  "focusedWindow (capture_start plat now lc focused w) = focused"
  "isMana (capture_start plat now lc focused w) = isMana w"
  "files (capture_start plat now lc focused w) = files w"
  "mainWindowExists (capture_start plat now lc focused w) = mainWindowExists w"
  "windowExists (capture_start plat now lc focused w) = windowExists w"
  "sizeOf (capture_start plat now lc focused w) = sizeOf w"
  "tempDir (capture_start plat now lc focused w) = tempDir w"
  "captureUtil (capture_start plat now lc focused w) = captureUtil w"
  "captureUtilArgs (capture_start plat now lc focused w)
     = Some (capture_args plat (isMana w) (output_name w now) lc)"
  "nextHandle (capture_start plat now lc focused w) = Suc (nextHandle w)"
  by (simp_all add: capture_start_def)

lemma capture_start_aot:
  "alwaysOnTop (capture_start plat now lc focused w) =
     (if mainWindowExists w \<and> plat = WindowsOS then False else alwaysOnTop w)"
  "shouldUpdateAlwaysOnTop (capture_start plat now lc focused w) =
     (if mainWindowExists w \<and> plat = WindowsOS then alwaysOnTop w else shouldUpdateAlwaysOnTop w)"
  by (simp_all add: capture_start_def capture_suspend_aot)

lemma effects_capture_start:
  "effects (capture_start plat now lc focused w) =
     effects (capture_suspend plat w) @ (case child w of None \<Rightarrow> [] | Some p \<Rightarrow> [Kill p])
       @ [ExecFile (nextHandle w) (captureUtil w) (capture_args plat (isMana w) (output_name w now) lc)]"
  by (simp add: capture_start_def effects_capture_spawn)

lemma running_capture_start:
  "running (capture_start plat now lc focused w) =
     (case child w of None \<Rightarrow> running w | Some p \<Rightarrow> removeAll p (running w)) @ [nextHandle w]"
  by (simp add: capture_start_def running_capture_spawn split: option.splits)

lemma string_of_nat_41: "string_of_nat 41 = ''41''"
  by code_simp

lemma string_of_nat_42: "string_of_nat 42 = ''42''"
  by code_simp

lemmas snippet_eval =
  run_def capture_start_def capture_suspend_def capture_prepare_def capture_spawn_def
  capture_finish_def capture_attempt_def cancelCapture_start_def cancelCapture_finish_def
  killChildProcess_def execCmd_def emit_def updateAlwaysOnTop_def verifyAndUpdateAlwaysOnTop_def
  convertFileToData_def convertFileToData_result_def convertFileToData_finally_def deleteFile_def
  getImageSize_def upload_snippet_def new_session_def capture_args_def output_name_def
  path_join_def string_of_nat_41 string_of_nat_42 Let_def

section \<open>The payload of a capture\<close>

text \<open>
  Claim C9, as amended. Let the session hold the name of its output file. If reading the
  file gives bytes, \<^verbatim>\<open>convertFileToData\<close> returns message \<^verbatim>\<open>success\<close>, the base64 text of
  these bytes as data and type \<^verbatim>\<open>image/png;base64\<close>, and decoding the data field gives
  the bytes back. If the file does not exist (ENOENT), the payload has type \<^verbatim>\<open>ERROR\<close>
  and no data. Outside the two-step hand-off (\<^verbatim>\<open>isMana\<close> false) the capture sends this
  payload to the requesting view and goes on to its normal end, the always-on-top check.
  In the two-step hand-off \<^verbatim>\<open>convertFileToData\<close> is not reached and the capture itself
  sends nothing: it closes and opens the editor window and registers the upload listener,
  or, when the image cannot be measured (the file is missing), it only restores
  always-on-top. The payload the upload listener sends later has message \<^verbatim>\<open>SUCCESS\<close> and
  the type and data of the editor's \<^verbatim>\<open>mergedImageData\<close>.
\<close>

theorem convertFileToData_payload:
  assumes "outputFileName w = Some name" and "name \<noteq> []"
  shows "(\<forall>bytes. files w name = Inr bytes \<longrightarrow>
            fst (convertFileToData w) =
              \<lparr>message = ''success'', data = Some (base64_encode bytes),
               type = ''image/png;base64''\<rparr>
            \<and> Option.bind (data (fst (convertFileToData w))) base64_decode = Some bytes)
       \<and> (files w name = Inl ENOENT \<longrightarrow>
            type (fst (convertFileToData w)) = ''ERROR''
            \<and> data (fst (convertFileToData w)) = None)
       \<and> (\<not> isMana w \<longrightarrow>
            capture_finish wc Resolved w =
              verifyAndUpdateAlwaysOnTop
                (emit (Send wc (fst (convertFileToData w))) (snd (convertFileToData w)))
            \<and> Send wc (fst (convertFileToData w)) \<in> set (effects (capture_finish wc Resolved w)))
       \<and> (isMana w \<longrightarrow>
            effects (capture_finish wc Resolved w) =
              effects w @ CloseSnippingToolWindow
                # (case getImageSize w of
                     Inl _ \<Rightarrow> if shouldUpdateAlwaysOnTop w then [UpdateAlwaysOnTop True] else []
                   | Inr dimensions \<Rightarrow>
                       [CreateSnippingToolWindow (Some name) dimensions, OnceUploadSnippet wc])
            \<and> (files w name = Inl ENOENT \<longrightarrow> getImageSize w = Inl ()))
       \<and> (get_prop snippetData ''mergedImageData'' = Inr (JStr merged) \<longrightarrow>
            Send wc \<lparr>message = ''SUCCESS'', data = snd (split_comma merged),
                     type = fst (split_comma merged)\<rparr>
              \<in> set (effects (snd (upload_snippet wc snippetData u))))"
proof -
  have ok: "\<And>bytes. files w name = Inr bytes \<Longrightarrow>
      convertFileToData_result w =
        \<lparr>message = ''success'', data = Some (base64_encode bytes), type = ''image/png;base64''\<rparr>"
    using assms by (simp add: convertFileToData_result_def)
  have missing: "files w name = Inl ENOENT \<Longrightarrow>
      convertFileToData_result w =
        \<lparr>message = ''file does not exist'', data = None, type = ''ERROR''\<rparr>"
    using assms by (simp add: convertFileToData_result_def)
  have fin: "\<not> isMana w \<Longrightarrow> capture_finish wc Resolved w =
      verifyAndUpdateAlwaysOnTop
        (emit (Send wc (fst (convertFileToData w))) (snd (convertFileToData w)))"
    by (simp add: capture_finish_def convertFileToData_def)
  have sent: "\<not> isMana w \<Longrightarrow>
      Send wc (fst (convertFileToData w)) \<in> set (effects (capture_finish wc Resolved w))"
    by (simp add: fin effects_verifyAndUpdateAlwaysOnTop effects_emit)
  have mana: "isMana w \<Longrightarrow> effects (capture_finish wc Resolved w) =
      effects w @ CloseSnippingToolWindow
        # (case getImageSize w of
             Inl _ \<Rightarrow> if shouldUpdateAlwaysOnTop w then [UpdateAlwaysOnTop True] else []
           | Inr dimensions \<Rightarrow>
               [CreateSnippingToolWindow (Some name) dimensions, OnceUploadSnippet wc])"
    using effects_capture_finish_mana [of w wc] assms(1) by (simp split: sum.splits)
  have size: "files w name = Inl ENOENT \<Longrightarrow> getImageSize w = Inl ()"
    using assms by (simp add: getImageSize_def)
  have up: "get_prop snippetData ''mergedImageData'' = Inr (JStr merged) \<Longrightarrow>
      Send wc \<lparr>message = ''SUCCESS'', data = snd (split_comma merged),
               type = fst (split_comma merged)\<rparr>
        \<in> set (effects (snd (upload_snippet wc snippetData u)))"
    by (simp add: effects_upload_snippet)
  have one: "\<forall>bytes. files w name = Inr bytes \<longrightarrow>
            fst (convertFileToData w) =
              \<lparr>message = ''success'', data = Some (base64_encode bytes),
               type = ''image/png;base64''\<rparr>
            \<and> Option.bind (data (fst (convertFileToData w))) base64_decode = Some bytes"
    using ok by (simp add: convertFileToData_def base64_roundtrip)
  have two: "files w name = Inl ENOENT \<longrightarrow>
            type (fst (convertFileToData w)) = ''ERROR''
            \<and> data (fst (convertFileToData w)) = None"
    using missing by (simp add: convertFileToData_def)
  from one two fin sent mana size up show ?thesis
    by blast
qed

theorem convertFileToData_payload_witness:
  "fst (convertFileToData
      ((new_session ''/t'' ''snip'' True False False (\<lambda>_. True)
          ((\<lambda>_. Inl ENOENT)(''/t/a.png'' := Inr [77, 97, 110])) (\<lambda>_. None))
       \<lparr>outputFileName := Some ''/t/a.png''\<rparr>))
     = \<lparr>message = ''success'', data = Some ''TWFu'', type = ''image/png;base64''\<rparr>
   \<and> base64_decode ''TWFu'' = Some [77, 97, 110]
   \<and> type (fst (convertFileToData
      ((new_session ''/t'' ''snip'' True False False (\<lambda>_. True) (\<lambda>_. Inl ENOENT) (\<lambda>_. None))
       \<lparr>outputFileName := Some ''/t/a.png''\<rparr>))) = ''ERROR''"
proof -
  let ?w = "(new_session ''/t'' ''snip'' True False False (\<lambda>_. True)
          ((\<lambda>_. Inl ENOENT)(''/t/a.png'' := Inr [77, 97, 110])) (\<lambda>_. None))
       \<lparr>outputFileName := Some ''/t/a.png''\<rparr>"
  let ?v = "(new_session ''/t'' ''snip'' True False False (\<lambda>_. True) (\<lambda>_. Inl ENOENT) (\<lambda>_. None))
       \<lparr>outputFileName := Some ''/t/a.png''\<rparr>"
  have enc: "base64_encode [77, 97, 110] = ''TWFu''"
    by (simp add: sextet0_def sextet1_def sextet2_def sextet3_def b64_char_def b64_alphabet_def)
  have n: "outputFileName ?w = Some ''/t/a.png''" "outputFileName ?v = Some ''/t/a.png''"
    by (simp_all add: new_session_def)
  have f: "files ?w ''/t/a.png'' = Inr [77, 97, 110]" "files ?v ''/t/a.png'' = Inl ENOENT"
    by (simp_all add: new_session_def)
  have ne: "''/t/a.png'' \<noteq> []" by simp
  note T = convertFileToData_payload [OF n(1) ne]
  note U = convertFileToData_payload [OF n(2) ne]
  from T f(1)
  have a: "fst (convertFileToData ?w)
      = \<lparr>message = ''success'', data = Some (base64_encode [77, 97, 110]),
         type = ''image/png;base64''\<rparr>"
    and b: "Option.bind (data (fst (convertFileToData ?w))) base64_decode = Some [77, 97, 110]"
    by blast+
  from U f(2) have c: "type (fst (convertFileToData ?v)) = ''ERROR''" by blast
  have a': "fst (convertFileToData ?w)
      = \<lparr>message = ''success'', data = Some ''TWFu'', type = ''image/png;base64''\<rparr>"
    by (simp only: a enc)
  from b have "Option.bind (Some ''TWFu'') base64_decode = Some [77, 97, 110]"
    by (simp only: a' IScreenSnippet.select_convs)
  then have "base64_decode ''TWFu'' = Some [77, 97, 110]"
    by (simp only: Option.bind.simps)
  with a' c show ?thesis by (simp only: simp_thms)
qed


text \<open>
  The claim as stated fails in the two-step hand-off. When the tool has written no file,
  the capture sends no payload at all: the image cannot be measured, and the \<^verbatim>\<open>catch\<close>
  block only restores always-on-top. When the tool has written the bytes 1, 2, 3 (base64
  \<^verbatim>\<open>AQID\<close>), the one payload that reaches the view is the one of the upload listener: its
  message is \<^verbatim>\<open>SUCCESS\<close> and its data is what the editor sent.
\<close>

theorem handoff_payload_is_the_editors:
  "effects (capture_attempt WindowsOS 41 ''en'' None 7 None Resolved
      (new_session ''/t'' ''snip.exe'' True False True (\<lambda>_. True) (\<lambda>_. Inl ENOENT) (\<lambda>_. Some (4, 3))))
     = [ExecFile 0 ''snip.exe'' [''--no-annotate'', ''/t/symphonyImage-41.png'', ''en''],
        CloseSnippingToolWindow]
   \<and> effects (run WindowsOS
      (new_session ''/t'' ''snip.exe'' True False True (\<lambda>_. True) (\<lambda>_. Inl ENOENT) (\<lambda>_. Some (4, 3)))
      [CaptureCalled 41 ''en'' None, ToolWrote ''/t/symphonyImage-41.png'' [1, 2, 3],
       CaptureSettled 7 Resolved,
       UploadReceived 7 (JObj [(''screenSnippetPath'', JStr ''/t/symphonyImage-41.png''),
                               (''mergedImageData'', JStr ''image/png;base64,QUJD'')])])
     = [ExecFile 0 ''snip.exe'' [''--no-annotate'', ''/t/symphonyImage-41.png'', ''en''],
        CloseSnippingToolWindow,
        CreateSnippingToolWindow (Some ''/t/symphonyImage-41.png'') (Some (4, 3)),
        OnceUploadSnippet 7,
        CloseSnippingToolWindow,
        Send 7 \<lparr>message = ''SUCCESS'', data = Some ''QUJD'', type = ''image/png;base64''\<rparr>,
        Unlink ''/t/symphonyImage-41.png'']"
  by (simp add: snippet_eval split_comma_def)
section \<open>Killing the stored child before a new capture\<close>

text \<open>
  Claim C1, as amended. Whenever \<^verbatim>\<open>capture\<close> is called while a child handle is stored,
  the call kills that child and only then starts the new process: the effects of the call
  are those of the always-on-top suspension, then \<^verbatim>\<open>kill\<close> on the stored handle, then
  \<^verbatim>\<open>execFile\<close>; the killed process is no longer live and the new handle is stored. And
  in every run of the session from its creation in which \<^verbatim>\<open>cancelCapture\<close> does not start
  the tool (always so off Windows, where it returns at once), at most one external
  process is live at any time, the one whose handle is stored.
\<close>

theorem capture_kills_stored_child:
  "(child w = Some p \<longrightarrow>
      effects (capture_start plat now lc focused w) =
        effects (capture_suspend plat w)
          @ [Kill p,
             ExecFile (nextHandle w) (captureUtil w)
               (capture_args plat (isMana w) (output_name w now) lc)]
      \<and> running (capture_start plat now lc focused w) = removeAll p (running w) @ [nextHandle w]
      \<and> child (capture_start plat now lc focused w) = Some (nextHandle w))
   \<and> (plat \<noteq> WindowsOS \<or> \<not> list_ex is_cancel evs \<longrightarrow>
        one_live (run plat (new_session dir util mw aot mana wins fs probe) evs))"
  by (simp add: effects_capture_start running_capture_start one_live_run one_live_new_session)


theorem capture_kills_stored_child_witness:
  "effects (run Linux (new_session ''/t'' ''shot'' True False False (\<lambda>_. True) (\<lambda>_. Inl ENOENT) (\<lambda>_. None))
      [CaptureCalled 41 ''en'' None, CaptureCalled 42 ''en'' None])
     = [ExecFile 0 ''shot'' [''-a'', ''-f'', ''/t/symphonyImage-41.png''], Kill 0,
        ExecFile 1 ''shot'' [''-a'', ''-f'', ''/t/symphonyImage-42.png'']]
   \<and> one_live (run Linux (new_session ''/t'' ''shot'' True False False (\<lambda>_. True) (\<lambda>_. Inl ENOENT) (\<lambda>_. None))
      [CaptureCalled 41 ''en'' None, CancelCalled None, CaptureCalled 42 ''en'' None])
   \<and> one_live (run WindowsOS (new_session ''/t'' ''shot'' True False False (\<lambda>_. True) (\<lambda>_. Inl ENOENT) (\<lambda>_. None))
      [CaptureCalled 41 ''en'' None, CaptureCalled 42 ''en'' None, ProcessEnded 1])"
proof -
  let ?w0 = "new_session ''/t'' ''shot'' True False False (\<lambda>_. True) (\<lambda>_. Inl ENOENT) (\<lambda>_. None)"
  let ?w1 = "capture_start Linux 41 ''en'' None ?w0"
  note T = capture_kills_stored_child [of ?w1 0 Linux 42 "''en''" None
      "[CaptureCalled 41 ''en'' None, CancelCalled None, CaptureCalled 42 ''en'' None]"
      "''/t''" "''shot''" True False False "\<lambda>_. True" "\<lambda>_. Inl ENOENT" "\<lambda>_. None"]
  have c: "child ?w1 = Some 0"
    by (simp add: snippet_eval)
  from T c have "effects (capture_start Linux 42 ''en'' None ?w1) =
        effects (capture_suspend Linux ?w1)
          @ [Kill 0, ExecFile (nextHandle ?w1) (captureUtil ?w1)
               (capture_args Linux (isMana ?w1) (output_name ?w1 42) ''en'')]"
    by blast
  moreover have "effects (capture_suspend Linux ?w1)
      = [ExecFile 0 ''shot'' [''-a'', ''-f'', ''/t/symphonyImage-41.png'']]"
    by (simp add: snippet_eval)
  moreover have "nextHandle ?w1 = 1" "captureUtil ?w1 = ''shot''"
    "capture_args Linux (isMana ?w1) (output_name ?w1 42) ''en''
       = [''-a'', ''-f'', ''/t/symphonyImage-42.png'']"
    by (simp_all add: snippet_eval)
  ultimately have a: "effects (capture_start Linux 42 ''en'' None ?w1) =
     [ExecFile 0 ''shot'' [''-a'', ''-f'', ''/t/symphonyImage-41.png''], Kill 0,
        ExecFile 1 ''shot'' [''-a'', ''-f'', ''/t/symphonyImage-42.png'']]"
    by simp
  from T have b: "one_live (run Linux ?w0
      [CaptureCalled 41 ''en'' None, CancelCalled None, CaptureCalled 42 ''en'' None])"
    by simp
  have e: "run Linux ?w0 [CaptureCalled 41 ''en'' None, CaptureCalled 42 ''en'' None]
      = capture_start Linux 42 ''en'' None ?w1"
    by (simp add: run_def)
  have "\<not> list_ex is_cancel [CaptureCalled 41 ''en'' None, CaptureCalled 42 ''en'' None, ProcessEnded 1]"
    by simp
  with capture_kills_stored_child [of ?w1 0 WindowsOS 42 "''en''" None
      "[CaptureCalled 41 ''en'' None, CaptureCalled 42 ''en'' None, ProcessEnded 1]"
      "''/t''" "''shot''" True False False "\<lambda>_. True" "\<lambda>_. Inl ENOENT" "\<lambda>_. None"]
  have c: "one_live (run WindowsOS ?w0
      [CaptureCalled 41 ''en'' None, CaptureCalled 42 ''en'' None, ProcessEnded 1])"
    by blast
  from a b c e show ?thesis by (simp only: simp_thms)
qed

text \<open>
  The claim as stated fails on Windows: \<^verbatim>\<open>cancelCapture\<close> starts the tool a second time
  (with no arguments) without killing the running capture, and overwrites the stored
  handle. Two external processes run, and no \<^verbatim>\<open>kill\<close> was sent.
\<close>

theorem cancel_leaves_two_processes:
  "\<not> one_live (run WindowsOS
      (new_session ''/t'' ''snip.exe'' True False False (\<lambda>_. True) (\<lambda>_. Inl ENOENT) (\<lambda>_. None))
      [CaptureCalled 41 ''en'' None, CancelCalled None])
   \<and> running (run WindowsOS
      (new_session ''/t'' ''snip.exe'' True False False (\<lambda>_. True) (\<lambda>_. Inl ENOENT) (\<lambda>_. None))
      [CaptureCalled 41 ''en'' None, CancelCalled None]) = [0, 1]
   \<and> effects (run WindowsOS
      (new_session ''/t'' ''snip.exe'' True False False (\<lambda>_. True) (\<lambda>_. Inl ENOENT) (\<lambda>_. None))
      [CaptureCalled 41 ''en'' None, CancelCalled None])
     = [ExecFile 0 ''snip.exe'' [''/t/symphonyImage-41.png'', ''en''], ExecFile 1 ''snip.exe'' []]"
  by (simp add: one_live_iff snippet_eval)

section \<open>Cleanup after a capture attempt\<close>

lemma aot_updates_append: "aot_updates (xs @ ys) = aot_updates xs @ aot_updates ys"
  by (induction xs rule: aot_updates.induct) simp_all


lemma verify_fields [simp]:
  "files (verifyAndUpdateAlwaysOnTop w) = files w"
  "shouldUpdateAlwaysOnTop (verifyAndUpdateAlwaysOnTop w) = False"
  "alwaysOnTop (verifyAndUpdateAlwaysOnTop w) = (shouldUpdateAlwaysOnTop w \<or> alwaysOnTop w)"
  by (simp_all add: verifyAndUpdateAlwaysOnTop_def updateAlwaysOnTop_def emit_def)

lemma verify_noop: "\<not> shouldUpdateAlwaysOnTop w \<Longrightarrow> verifyAndUpdateAlwaysOnTop w = w"
  by (simp add: verifyAndUpdateAlwaysOnTop_def)

lemma convert_finally_fields [simp]:
  "shouldUpdateAlwaysOnTop (convertFileToData_finally w) = shouldUpdateAlwaysOnTop w"
  "alwaysOnTop (convertFileToData_finally w) = alwaysOnTop w"
  by (simp_all add: convertFileToData_finally_def deleteFile_def emit_def Let_def split: option.splits)

lemma files_convert_finally [simp]: "files (convertFileToData_finally w) = files w"
  by (simp add: convertFileToData_finally_def deleteFile_def emit_def Let_def split: option.splits)


lemma aot_updates_convert_finally:
  "aot_updates (effects (convertFileToData_finally w)) = aot_updates (effects w)"
  by (simp add: convertFileToData_finally_def deleteFile_def emit_def Let_def aot_updates_append
      split: option.splits)


lemma upload_snippet_flag:
  "\<not> shouldUpdateAlwaysOnTop (snd (upload_snippet wc snippetData w))"
  "alwaysOnTop (snd (upload_snippet wc snippetData w)) = (shouldUpdateAlwaysOnTop w \<or> alwaysOnTop w)"
  "files (snd (upload_snippet wc snippetData w)) = files w"
  by (simp_all add: upload_snippet_def deleteFile_def emit_def Let_def
      split: sum.splits jsval.splits)






text \<open>
  Outside the amended claim, by a slip rather than by design: a second \<^verbatim>\<open>capture\<close> that
  starts while the first is pending reads \<^verbatim>\<open>isAlwaysOnTop()\<close> after the first has
  suspended it, overwrites the flag with false, and kills the first. Neither attempt then
  restores the property.
\<close>

lemma overlapping_captures_lose_always_on_top:
  "alwaysOnTop (new_session ''/t'' ''snip.exe'' True True False (\<lambda>_. True) (\<lambda>_. Inl ENOENT) (\<lambda>_. None))
   \<and> \<not> alwaysOnTop (run WindowsOS
      (new_session ''/t'' ''snip.exe'' True True False (\<lambda>_. True) (\<lambda>_. Inl ENOENT) (\<lambda>_. None))
      [CaptureCalled 41 ''en'' None, CaptureCalled 42 ''en'' None,
       CaptureSettled 7 Rejected, CaptureSettled 7 Resolved])"
  by (simp add: snippet_eval)

text \<open>
  The upload listener with an answer that carries no payload: the \<^verbatim>\<open>try\<close> block throws
  after the editor window is closed, the \<^verbatim>\<open>catch\<close> block restores always-on-top, and the
  \<^verbatim>\<open>finally\<close> block throws again before \<^verbatim>\<open>deleteFile\<close> is reached.
\<close>

lemma upload_without_payload:
  "upload_snippet 7 JUndefined
      ((new_session ''/t'' ''snip.exe'' True False True (\<lambda>_. True) (\<lambda>_. Inl ENOENT) (\<lambda>_. None))
         \<lparr>shouldUpdateAlwaysOnTop := True\<rparr>)
     = (Some TypeError,
        (new_session ''/t'' ''snip.exe'' True False True (\<lambda>_. True) (\<lambda>_. Inl ENOENT) (\<lambda>_. None))
          \<lparr>alwaysOnTop := True,
            effects := [CloseSnippingToolWindow, UpdateAlwaysOnTop True]\<rparr>)"
  by (simp add: snippet_eval)
section \<open>Captures that do not suspend always-on-top\<close>

lemma aot_updates_emit:
  "aot_updates (effects (emit e w)) =
     aot_updates (effects w) @ (case e of UpdateAlwaysOnTop b \<Rightarrow> [b] | _ \<Rightarrow> [])"
  by (cases e) (simp_all add: emit_def aot_updates_append)

lemma aot_updates_killChildProcess:
  "aot_updates (effects (killChildProcess w)) = aot_updates (effects w)"
  by (simp add: effects_killChildProcess aot_updates_append split: option.splits)

lemma aot_updates_capture_start:
  "aot_updates (effects (capture_start plat now lc focused w)) =
     aot_updates (effects w)
       @ (if mainWindowExists w \<and> plat = WindowsOS \<and> alwaysOnTop w then [False] else [])"
  by (simp add: effects_capture_start effects_capture_suspend aot_updates_append split: option.splits)

lemma capture_start_quiet:
  assumes "plat \<noteq> WindowsOS \<or> \<not> mainWindowExists w"
  shows "shouldUpdateAlwaysOnTop (capture_start plat now lc focused w) = shouldUpdateAlwaysOnTop w"
    and "alwaysOnTop (capture_start plat now lc focused w) = alwaysOnTop w"
    and "aot_updates (effects (capture_start plat now lc focused w)) = aot_updates (effects w)"
  using assms by (auto simp: capture_start_aot aot_updates_capture_start)

lemma capture_finish_quiet:
  assumes "\<not> shouldUpdateAlwaysOnTop w"
  shows "\<not> shouldUpdateAlwaysOnTop (capture_finish wc outcome w)"
    and "alwaysOnTop (capture_finish wc outcome w) = alwaysOnTop w"
    and "aot_updates (effects (capture_finish wc outcome w)) = aot_updates (effects w)"
  using assms
  by (simp_all add: capture_finish_def convertFileToData_def verify_noop Let_def
      aot_updates_emit aot_updates_convert_finally split: settled.splits sum.splits)

lemma upload_snippet_quiet:
  assumes "\<not> shouldUpdateAlwaysOnTop w"
  shows "\<not> shouldUpdateAlwaysOnTop (snd (upload_snippet wc snippetData w))"
    and "alwaysOnTop (snd (upload_snippet wc snippetData w)) = alwaysOnTop w"
    and "aot_updates (effects (snd (upload_snippet wc snippetData w))) = aot_updates (effects w)"
  using assms
  by (simp_all add: upload_snippet_flag effects_upload_snippet aot_updates_append
      split: sum.splits jsval.splits)

lemma step_quiet:
  assumes "plat \<noteq> WindowsOS \<or> \<not> is_capture e" and "\<not> shouldUpdateAlwaysOnTop w"
  shows "\<not> shouldUpdateAlwaysOnTop (step plat w e)
     \<and> alwaysOnTop (step plat w e) = alwaysOnTop w
     \<and> aot_updates (effects (step plat w e)) = aot_updates (effects w)"
proof (cases e)
  case (CaptureCalled now lc focused)
  with assms show ?thesis by (simp add: capture_start_quiet)
next
  case (CaptureSettled wc outcome)
  with assms show ?thesis by (simp add: capture_finish_quiet)
next
  case (CancelCalled focused)
  with assms show ?thesis by (simp add: cancelCapture_start_def aot_updates_append)
next
  case (CancelSettled outcome)
  with assms show ?thesis by (simp add: cancelCapture_finish_def verify_noop)
next
  case KillCalled
  with assms show ?thesis by (simp add: aot_updates_killChildProcess)
next
  case (UploadReceived wc snippetData)
  with assms show ?thesis by (simp add: upload_snippet_quiet)
qed (use assms in simp_all)

lemma run_quiet:
  assumes "plat \<noteq> WindowsOS \<or> \<not> list_ex is_capture evs" and "\<not> shouldUpdateAlwaysOnTop w"
  shows "\<not> shouldUpdateAlwaysOnTop (run plat w evs)
     \<and> alwaysOnTop (run plat w evs) = alwaysOnTop w
     \<and> aot_updates (effects (run plat w evs)) = aot_updates (effects w)"
  using assms unfolding run_def
proof (induction evs arbitrary: w)
  case Nil
  then show ?case by simp
next
  case (Cons e evs)
  from Cons.prems have 1: "plat \<noteq> WindowsOS \<or> \<not> is_capture e"
    and 2: "plat \<noteq> WindowsOS \<or> \<not> list_ex is_capture evs"
    by auto
  from step_quiet [OF 1 Cons.prems(2)] Cons.IH [OF 2, of "step plat w e"]
  show ?case by simp
qed

lemma capture_attempt_quiet:
  assumes "plat \<noteq> WindowsOS \<or> \<not> mainWindowExists w" and "\<not> shouldUpdateAlwaysOnTop w"
  shows "\<not> shouldUpdateAlwaysOnTop (capture_attempt plat now lc focused wc written outcome w)"
    and "alwaysOnTop (capture_attempt plat now lc focused wc written outcome w) = alwaysOnTop w"
    and "aot_updates (effects (capture_attempt plat now lc focused wc written outcome w))
           = aot_updates (effects w)"
proof -
  let ?w1 = "capture_start plat now lc focused w"
  let ?w2 = "case written of None \<Rightarrow> ?w1
             | Some bytes \<Rightarrow> step plat ?w1 (ToolWrote (output_name w now) bytes)"
  let ?w3 = "case outcome of Resolved \<Rightarrow> ?w2 | Rejected \<Rightarrow> killChildProcess ?w2"
  have q: "\<not> shouldUpdateAlwaysOnTop ?w3" "alwaysOnTop ?w3 = alwaysOnTop w"
    "aot_updates (effects ?w3) = aot_updates (effects w)"
    using assms
    by (simp_all add: capture_start_quiet aot_updates_killChildProcess
        split: option.splits settled.splits)
  have A: "capture_attempt plat now lc focused wc written outcome w = capture_finish wc outcome ?w3"
    by (simp add: capture_attempt_def Let_def)
  from capture_finish_quiet [OF q(1), of wc outcome] q
  show "\<not> shouldUpdateAlwaysOnTop (capture_attempt plat now lc focused wc written outcome w)"
    and "alwaysOnTop (capture_attempt plat now lc focused wc written outcome w) = alwaysOnTop w"
    and "aot_updates (effects (capture_attempt plat now lc focused wc written outcome w))
           = aot_updates (effects w)"
    unfolding A by simp_all
qed

text \<open>
  Claim C10, as amended. Off Windows the flag \<^verbatim>\<open>shouldUpdateAlwaysOnTop\<close> is never set:
  in every run of the session from its creation the flag is false, \<^verbatim>\<open>updateAlwaysOnTop\<close>
  is never called and the always-on-top property keeps its value. On any platform, a call
  of \<^verbatim>\<open>capture\<close> made off Windows or while no main window exists does not set the flag and
  does not touch the property before the tool starts. If moreover no restoration was
  pending when it was called (the flag was false) and, on Windows, no other \<^verbatim>\<open>capture\<close>
  is called before this one has finished, then whatever else happens in between (the tool
  writes its file, the child is killed or ends, a capture is cancelled, an upload arrives,
  the main window opens or closes), \<^verbatim>\<open>verifyAndUpdateAlwaysOnTop\<close> is a no-op on every
  exit path: the flag is still false when the second piece of the capture runs, the
  property is unchanged and \<^verbatim>\<open>updateAlwaysOnTop\<close> is not called.
\<close>

theorem capture_leaves_always_on_top:
  "(plat \<noteq> WindowsOS \<longrightarrow>
      \<not> shouldUpdateAlwaysOnTop (run plat (new_session dir util mw aot mana wins fs probe) evs)
      \<and> alwaysOnTop (run plat (new_session dir util mw aot mana wins fs probe) evs) = aot
      \<and> aot_updates (effects (run plat (new_session dir util mw aot mana wins fs probe) evs)) = [])
   \<and> (plat \<noteq> WindowsOS \<or> \<not> mainWindowExists w \<longrightarrow>
      shouldUpdateAlwaysOnTop (capture_start plat now lc focused w) = shouldUpdateAlwaysOnTop w
      \<and> alwaysOnTop (capture_start plat now lc focused w) = alwaysOnTop w
      \<and> aot_updates (effects (capture_start plat now lc focused w)) = aot_updates (effects w)
      \<and> (\<not> shouldUpdateAlwaysOnTop w \<longrightarrow>
           verifyAndUpdateAlwaysOnTop (capture_start plat now lc focused w)
             = capture_start plat now lc focused w
           \<and> \<not> shouldUpdateAlwaysOnTop (capture_attempt plat now lc focused wc written outcome w)
           \<and> alwaysOnTop (capture_attempt plat now lc focused wc written outcome w) = alwaysOnTop w
           \<and> aot_updates (effects (capture_attempt plat now lc focused wc written outcome w))
               = aot_updates (effects w)
           \<and> (plat \<noteq> WindowsOS \<or> \<not> list_ex is_capture between \<longrightarrow>
                verifyAndUpdateAlwaysOnTop (run plat (capture_start plat now lc focused w) between)
                  = run plat (capture_start plat now lc focused w) between
                \<and> \<not> shouldUpdateAlwaysOnTop
                      (capture_finish wc outcome
                         (run plat (capture_start plat now lc focused w) between))
                \<and> alwaysOnTop
                      (capture_finish wc outcome
                         (run plat (capture_start plat now lc focused w) between))
                    = alwaysOnTop w
                \<and> aot_updates (effects
                      (capture_finish wc outcome
                         (run plat (capture_start plat now lc focused w) between)))
                    = aot_updates (effects w))))"
proof -
  let ?w0 = "new_session dir util mw aot mana wins fs probe"
  let ?w1 = "capture_start plat now lc focused w"
  have i: "\<not> shouldUpdateAlwaysOnTop ?w0" "alwaysOnTop ?w0 = aot" "aot_updates (effects ?w0) = []"
    by (simp_all add: new_session_def)
  have A: "plat \<noteq> WindowsOS \<Longrightarrow>
      \<not> shouldUpdateAlwaysOnTop (run plat ?w0 evs) \<and> alwaysOnTop (run plat ?w0 evs) = aot
      \<and> aot_updates (effects (run plat ?w0 evs)) = []"
    using run_quiet [of plat evs ?w0] i by simp
  have B: "plat \<noteq> WindowsOS \<or> \<not> mainWindowExists w \<Longrightarrow> \<not> shouldUpdateAlwaysOnTop w \<Longrightarrow>
      verifyAndUpdateAlwaysOnTop ?w1 = ?w1"
    by (rule verify_noop) (simp add: capture_start_quiet)
  have C: "verifyAndUpdateAlwaysOnTop (run plat ?w1 between) = run plat ?w1 between
      \<and> \<not> shouldUpdateAlwaysOnTop (capture_finish wc outcome (run plat ?w1 between))
      \<and> alwaysOnTop (capture_finish wc outcome (run plat ?w1 between)) = alwaysOnTop w
      \<and> aot_updates (effects (capture_finish wc outcome (run plat ?w1 between)))
          = aot_updates (effects w)"
    if h: "plat \<noteq> WindowsOS \<or> \<not> mainWindowExists w" "\<not> shouldUpdateAlwaysOnTop w"
      "plat \<noteq> WindowsOS \<or> \<not> list_ex is_capture between"
  proof -
    from h(1,2) have q1: "\<not> shouldUpdateAlwaysOnTop ?w1" "alwaysOnTop ?w1 = alwaysOnTop w"
      "aot_updates (effects ?w1) = aot_updates (effects w)"
      by (simp_all add: capture_start_quiet)
    from run_quiet [OF h(3) q1(1)] q1
    have q2: "\<not> shouldUpdateAlwaysOnTop (run plat ?w1 between)"
      "alwaysOnTop (run plat ?w1 between) = alwaysOnTop w"
      "aot_updates (effects (run plat ?w1 between)) = aot_updates (effects w)"
      by simp_all
    from capture_finish_quiet [OF q2(1), of wc outcome] q2 verify_noop [OF q2(1)]
    show ?thesis by simp
  qed
  show ?thesis
    using A B C by (simp add: capture_start_quiet capture_attempt_quiet)
qed

theorem capture_leaves_always_on_top_witness:
  "alwaysOnTop (run Linux
      (new_session ''/t'' ''shot'' True True False (\<lambda>_. True) (\<lambda>_. Inl ENOENT) (\<lambda>_. None))
      [CaptureCalled 41 ''en'' None, CaptureSettled 7 Resolved])
   \<and> aot_updates (effects (run Linux
      (new_session ''/t'' ''shot'' True True False (\<lambda>_. True) (\<lambda>_. Inl ENOENT) (\<lambda>_. None))
      [CaptureCalled 41 ''en'' None, CaptureSettled 7 Resolved])) = []
   \<and> alwaysOnTop (capture_attempt WindowsOS 41 ''en'' None 7 None Resolved
      (new_session ''/t'' ''snip.exe'' False True False (\<lambda>_. True) (\<lambda>_. Inl ENOENT) (\<lambda>_. None)))
   \<and> aot_updates (effects (capture_attempt WindowsOS 41 ''en'' None 7 None Resolved
      (new_session ''/t'' ''snip.exe'' False True False (\<lambda>_. True) (\<lambda>_. Inl ENOENT) (\<lambda>_. None)))) = []
   \<and> aot_updates (effects (run WindowsOS
      (new_session ''/t'' ''snip.exe'' False True False (\<lambda>_. True) (\<lambda>_. Inl ENOENT) (\<lambda>_. None))
      [CaptureCalled 41 ''en'' None, MainWindowSet True, KillCalled, CaptureSettled 7 Rejected])) = []"
proof -
  let ?l = "new_session ''/t'' ''shot'' True True False (\<lambda>_. True) (\<lambda>_. Inl ENOENT) (\<lambda>_. None)"
  let ?v = "new_session ''/t'' ''snip.exe'' False True False (\<lambda>_. True) (\<lambda>_. Inl ENOENT) (\<lambda>_. None)"
  have h: "Linux \<noteq> WindowsOS" "WindowsOS \<noteq> WindowsOS \<or> \<not> mainWindowExists ?v"
    "\<not> shouldUpdateAlwaysOnTop ?v" "alwaysOnTop ?v" "aot_updates (effects ?v) = []"
    by (simp_all add: new_session_def)
  note L = capture_leaves_always_on_top [of Linux "''/t''" "''shot''" True True False
      "\<lambda>_. True" "\<lambda>_. Inl ENOENT" "\<lambda>_. None" "[CaptureCalled 41 ''en'' None, CaptureSettled 7 Resolved]"
      ?v 41 "''en''" None 7 None Resolved "[]"]
  note V = capture_leaves_always_on_top [of WindowsOS "''/t''" "''shot''" True True False
      "\<lambda>_. True" "\<lambda>_. Inl ENOENT" "\<lambda>_. None" "[]" ?v 41 "''en''" None 7 None Resolved
      "[MainWindowSet True, KillCalled]"]
  note W = capture_leaves_always_on_top [of WindowsOS "''/t''" "''shot''" True True False
      "\<lambda>_. True" "\<lambda>_. Inl ENOENT" "\<lambda>_. None" "[]" ?v 41 "''en''" None 7 None Rejected
      "[MainWindowSet True, KillCalled]"]
  have b: "WindowsOS \<noteq> WindowsOS \<or> \<not> list_ex is_capture [MainWindowSet True, KillCalled]"
    by simp
  have r: "run WindowsOS ?v
        [CaptureCalled 41 ''en'' None, MainWindowSet True, KillCalled, CaptureSettled 7 Rejected]
      = capture_finish 7 Rejected
          (run WindowsOS (capture_start WindowsOS 41 ''en'' None ?v) [MainWindowSet True, KillCalled])"
    by (simp add: run_def)
  from W h(2,3) b
  have "aot_updates (effects (capture_finish 7 Rejected
          (run WindowsOS (capture_start WindowsOS 41 ''en'' None ?v) [MainWindowSet True, KillCalled])))
      = aot_updates (effects ?v)"
    by blast
  then have o: "aot_updates (effects (run WindowsOS ?v
        [CaptureCalled 41 ''en'' None, MainWindowSet True, KillCalled, CaptureSettled 7 Rejected])) = []"
    by (simp only: r h(5))
  from L h(1) have "alwaysOnTop (run Linux ?l [CaptureCalled 41 ''en'' None, CaptureSettled 7 Resolved])"
    and "aot_updates (effects (run Linux ?l
        [CaptureCalled 41 ''en'' None, CaptureSettled 7 Resolved])) = []"
    by blast+
  moreover from V h(2,3)
  have "alwaysOnTop (capture_attempt WindowsOS 41 ''en'' None 7 None Resolved ?v) = alwaysOnTop ?v"
    and "aot_updates (effects (capture_attempt WindowsOS 41 ''en'' None 7 None Resolved ?v))
        = aot_updates (effects ?v)"
    by blast+
  ultimately show ?thesis
    using o by (simp only: h(4,5) simp_thms)
qed

text \<open>
  The claim as stated fails on Windows when a restoration is still pending. A first
  capture suspends always-on-top and, in the two-step hand-off, returns with the flag
  set. The main window then goes away. A second capture, called with no main window,
  does not touch the flag; when its child is killed, its \<^verbatim>\<open>catch\<close> block finds the flag
  set and calls \<^verbatim>\<open>updateAlwaysOnTop(true)\<close>.
\<close>

theorem pending_restore_without_main_window:
  "\<not> mainWindowExists (run WindowsOS
      (new_session ''/t'' ''snip.exe'' True True True (\<lambda>_. True) (\<lambda>_. Inl ENOENT) (\<lambda>_. Some (4, 3)))
      [CaptureCalled 41 ''en'' None, ToolWrote ''/t/symphonyImage-41.png'' [1, 2, 3],
       CaptureSettled 7 Resolved, MainWindowSet False])
   \<and> \<not> alwaysOnTop (run WindowsOS
      (new_session ''/t'' ''snip.exe'' True True True (\<lambda>_. True) (\<lambda>_. Inl ENOENT) (\<lambda>_. Some (4, 3)))
      [CaptureCalled 41 ''en'' None, ToolWrote ''/t/symphonyImage-41.png'' [1, 2, 3],
       CaptureSettled 7 Resolved, MainWindowSet False])
   \<and> alwaysOnTop (run WindowsOS
      (new_session ''/t'' ''snip.exe'' True True True (\<lambda>_. True) (\<lambda>_. Inl ENOENT) (\<lambda>_. Some (4, 3)))
      [CaptureCalled 41 ''en'' None, ToolWrote ''/t/symphonyImage-41.png'' [1, 2, 3],
       CaptureSettled 7 Resolved, MainWindowSet False,
       CaptureCalled 42 ''en'' None, KillCalled, CaptureSettled 7 Rejected])
   \<and> effects (run WindowsOS
      (new_session ''/t'' ''snip.exe'' True True True (\<lambda>_. True) (\<lambda>_. Inl ENOENT) (\<lambda>_. Some (4, 3)))
      [CaptureCalled 41 ''en'' None, ToolWrote ''/t/symphonyImage-41.png'' [1, 2, 3],
       CaptureSettled 7 Resolved, MainWindowSet False,
       CaptureCalled 42 ''en'' None, KillCalled, CaptureSettled 7 Rejected])
     = [UpdateAlwaysOnTop False,
        ExecFile 0 ''snip.exe'' [''--no-annotate'', ''/t/symphonyImage-41.png'', ''en''],
        CloseSnippingToolWindow,
        CreateSnippingToolWindow (Some ''/t/symphonyImage-41.png'') (Some (4, 3)),
        OnceUploadSnippet 7,
        Kill 0,
        ExecFile 1 ''snip.exe'' [''--no-annotate'', ''/t/symphonyImage-42.png'', ''en''],
        Kill 1,
        UpdateAlwaysOnTop True]"
  by (simp add: snippet_eval)


text \<open>
  Why the amended claim asks that no other capture is started in between. A first capture
  is called on Windows with no main window and no restoration pending. The main window
  opens. A second capture is called before the first has finished: it sets the flag and
  suspends always-on-top, and kills the child of the first. The \<^verbatim>\<open>catch\<close> block of the first
  capture then finds the flag set and calls \<^verbatim>\<open>updateAlwaysOnTop(true)\<close>.
\<close>

lemma overlapping_capture_sets_the_flag:
  "aot_updates (effects (run WindowsOS
      (new_session ''/t'' ''snip.exe'' False True False (\<lambda>_. True) (\<lambda>_. Inl ENOENT) (\<lambda>_. None))
      [CaptureCalled 41 ''en'' None, MainWindowSet True, CaptureCalled 42 ''en'' None,
       CaptureSettled 7 Rejected])) = [False, True]"
  by (simp add: snippet_eval)
section \<open>The pod login flow\<close>

lemma request_fields [simp]:
  "calls (request c s) = calls s @ [c]"
  "proxyDetails (request c s) = proxyDetails s"
  "loginUrl (request c s) = loginUrl s"
  "formattedPodUrl (request c s) = formattedPodUrl s"
  "credentialsPromise (request c s) = credentialsPromise s"
  "resolutionCallback (request c s) = resolutionCallback s"
  "promises (request c s) = promises s"
  "resolved (request c s) = resolved s"
  "mainWebContentsAlive (request c s) = mainWebContentsAlive s"
  "mainWindowOrigin (request c s) = mainWindowOrigin s"
  "userConfigUrl (request c s) = userConfigUrl s"
  "globalConfigUrl (request c s) = globalConfigUrl s"
  by (simp_all add: request_def)

text \<open>
  Claim C5. In the case \<^verbatim>\<open>browserLogin\<close> the candidate address is the \<^verbatim>\<open>--url=\<close>
  argument of the command line without its first six characters when there is one; else
  the \<^verbatim>\<open>url\<close> of the user configuration (as just updated, when the pod was not
  configured) when it is truthy; else the \<^verbatim>\<open>url\<close> of the global configuration. The
  case succeeds, stores as canonical origin the text \<^verbatim>\<open>https://\<close>, the subdomain, a dot,
  the domain and the top-level domain of the parsed address, derives the login URL from it
  and probes its authentication status. When the address parses into \<^verbatim>\<open>acme\<close>,
  \<^verbatim>\<open>symphony\<close> and \<^verbatim>\<open>.com\<close> the origin is exactly \<^verbatim>\<open>https://acme.symphony.com\<close>.
\<close>

theorem browserLogin_canonical_origin:
  assumes "get_prop arg ''browserLoginAutoConnect'' = Inr autoConnect"
    and "get_prop arg ''isPodConfigured'' = Inr isPodConfigured"
    and "get_prop arg ''newPodUrl'' = Inr newPodUrl"
    and "userConfigURL = (if truthy isPodConfigured then userConfigUrl s else newPodUrl)"
    and "address = podUrl urlFromCmd userConfigURL (globalConfigUrl s)"
  shows "(\<forall>a. urlFromCmd = Some a \<and> a \<noteq> [] \<longrightarrow> address = JStr (drop 6 a))
     \<and> (\<not> truthy_str urlFromCmd \<and> truthy userConfigURL \<longrightarrow> address = userConfigURL)
     \<and> (\<not> truthy_str urlFromCmd \<and> \<not> truthy userConfigURL \<longrightarrow> address = globalConfigUrl s)
     \<and> (\<exists>s'. browserLogin_case parseDomain urlFromCmd arg s = Inr s'
          \<and> formattedPodUrl s' =
              ''https://'' @ subdomain (parseDomain address) @ ''.''
                @ domain (parseDomain address) @ tld (parseDomain address)
          \<and> loginUrl s' = getBrowserLoginUrl (formattedPodUrl s')
          \<and> calls s' = calls s
              @ [UpdateUserConfig ''browserLoginAutoConnect'' autoConnect]
              @ (if truthy isPodConfigured then [] else [UpdateUserConfig ''url'' newPodUrl])
              @ [Fetch (formattedPodUrl s' @ AUTH_STATUS_PATH) False]
          \<and> (parseDomain address = \<lparr>subdomain = ''acme'', domain = ''symphony'', tld = ''.com''\<rparr>
               \<longrightarrow> formattedPodUrl s' = ''https://acme.symphony.com''))"
proof -
  have choice: "(\<forall>a. urlFromCmd = Some a \<and> a \<noteq> [] \<longrightarrow> address = JStr (drop 6 a))
     \<and> (\<not> truthy_str urlFromCmd \<and> truthy userConfigURL \<longrightarrow> address = userConfigURL)
     \<and> (\<not> truthy_str urlFromCmd \<and> \<not> truthy userConfigURL \<longrightarrow> address = globalConfigUrl s)"
    using assms(5) by (simp add: podUrl_def)
  show ?thesis
    using choice assms
    by (simp add: browserLogin_case_def loadPodUrl_def format_pod_url_def Let_def)
qed


theorem browserLogin_canonical_origin_witness:
  "(\<exists>s'. browserLogin_case parseDomain_spec None
        (JObj [(''cmd'', JStr ''browser-login''), (''browserLoginAutoConnect'', JBool True),
               (''isPodConfigured'', JBool True)])
        (initial_login True (JStr ''acme.symphony.com'') (JStr ''corporate.symphony.com'')) = Inr s'
      \<and> formattedPodUrl s' = ''https://acme.symphony.com'')
   \<and> podUrl (Some ''--url=acme.symphony.com'') (JStr ''other.symphony.com'') JUndefined
       = JStr ''acme.symphony.com''"
proof -
  let ?arg = "JObj [(''cmd'', JStr ''browser-login''), (''browserLoginAutoConnect'', JBool True),
               (''isPodConfigured'', JBool True)]"
  let ?s = "initial_login True (JStr ''acme.symphony.com'') (JStr ''corporate.symphony.com'')"
  have g: "get_prop ?arg ''browserLoginAutoConnect'' = Inr (JBool True)"
    "get_prop ?arg ''isPodConfigured'' = Inr (JBool True)"
    "get_prop ?arg ''newPodUrl'' = Inr JUndefined"
    by simp_all
  have u: "JStr ''acme.symphony.com'' = (if truthy (JBool True) then userConfigUrl ?s else JUndefined)"
    by (simp add: initial_login_def)
  have a: "JStr ''acme.symphony.com''
      = podUrl None (JStr ''acme.symphony.com'') (globalConfigUrl ?s)"
    by (simp add: podUrl_def)
  have p: "parseDomain_spec (JStr ''acme.symphony.com'')
      = \<lparr>subdomain = ''acme'', domain = ''symphony'', tld = ''.com''\<rparr>"
    by (simp add: parseDomain_spec_def Let_def)
  note T = browserLogin_canonical_origin [OF g u a, of parseDomain_spec]
  from T p have "\<exists>s'. browserLogin_case parseDomain_spec None ?arg ?s = Inr s'
      \<and> formattedPodUrl s' = ''https://acme.symphony.com''"
    by blast
  moreover
  have g': "get_prop (JObj []) ''browserLoginAutoConnect'' = Inr JUndefined"
    "get_prop (JObj []) ''isPodConfigured'' = Inr JUndefined"
    "get_prop (JObj []) ''newPodUrl'' = Inr JUndefined"
    by simp_all
  have u': "JUndefined = (if truthy JUndefined
      then userConfigUrl (initial_login True (JStr ''other.symphony.com'') JUndefined) else JUndefined)"
    by simp
  have "podUrl (Some ''--url=acme.symphony.com'') JUndefined
          (globalConfigUrl (initial_login True (JStr ''other.symphony.com'') JUndefined))
        = JStr (drop 6 ''--url=acme.symphony.com'')"
    using browserLogin_canonical_origin [OF g' u' refl, of "Some ''--url=acme.symphony.com''" parseDomain_spec]
    by blast
  then have "podUrl (Some ''--url=acme.symphony.com'') (JStr ''other.symphony.com'') JUndefined
       = JStr ''acme.symphony.com''"
    by (simp add: podUrl_def)
  ultimately show ?thesis by blast
qed

text \<open>
  Claim C4, as amended. For a probe response whose \<^verbatim>\<open>authenticationType\<close> can be read:
  if it is \<^verbatim>\<open>'sso'\<close>, the flow opens the stored login URL externally and loads nothing
  into the main view; if it is anything else and the main web contents exist and are not
  destroyed, the flow records the canonical origin as the origin of the main window and
  loads it; if it is anything else and there are no live main web contents, the flow does
  nothing. The stored login URL is the one \<^verbatim>\<open>browserLogin\<close> computed from the origin.
\<close>

theorem auth_response_routing:
  assumes "get_prop authResponse ''authenticationType'' = Inr authenticationType"
  shows "(authenticationType = JStr ''sso'' \<longrightarrow>
            calls (loadPodUrl_then proxyLogin authResponse s) = calls s @ [OpenExternal (loginUrl s)]
            \<and> mainWindowOrigin (loadPodUrl_then proxyLogin authResponse s) = mainWindowOrigin s)
     \<and> (authenticationType \<noteq> JStr ''sso'' \<and> mainWebContentsAlive s \<longrightarrow>
            calls (loadPodUrl_then proxyLogin authResponse s)
              = calls s @ [SetMainWindowOrigin (formattedPodUrl s), LoadURL (formattedPodUrl s)]
            \<and> mainWindowOrigin (loadPodUrl_then proxyLogin authResponse s)
              = Some (formattedPodUrl s))
     \<and> (authenticationType \<noteq> JStr ''sso'' \<and> \<not> mainWebContentsAlive s \<longrightarrow>
            loadPodUrl_then proxyLogin authResponse s = s)
     \<and> (\<forall>parseDomain urlFromCmd arg s0.
            browserLogin_case parseDomain urlFromCmd arg s0 = Inr s \<longrightarrow>
            loginUrl s = getBrowserLoginUrl (formattedPodUrl s))"
proof -
  have "loginUrl s = getBrowserLoginUrl (formattedPodUrl s)"
    if "browserLogin_case parseDomain urlFromCmd arg s0 = Inr s" for parseDomain urlFromCmd arg s0
    using that
    by (auto simp: browserLogin_case_def loadPodUrl_def Let_def split: sum.splits)
  then show ?thesis
    using assms by (simp add: loadPodUrl_then_def)
qed


theorem auth_response_routing_witness:
  "calls (loadPodUrl_then False (JObj [(''authenticationType'', JStr ''sso'')])
      ((initial_login True JUndefined JUndefined)
        \<lparr>formattedPodUrl := ''https://acme.symphony.com'',
         loginUrl := getBrowserLoginUrl ''https://acme.symphony.com''\<rparr>))
     = [OpenExternal (getBrowserLoginUrl ''https://acme.symphony.com'')]
   \<and> calls (loadPodUrl_then False (JObj [(''authenticationType'', JStr ''password'')])
      ((initial_login True JUndefined JUndefined)
        \<lparr>formattedPodUrl := ''https://acme.symphony.com'',
         loginUrl := getBrowserLoginUrl ''https://acme.symphony.com''\<rparr>))
     = [SetMainWindowOrigin ''https://acme.symphony.com'', LoadURL ''https://acme.symphony.com'']
   \<and> mainWindowOrigin (loadPodUrl_then False (JObj [(''authenticationType'', JStr ''password'')])
      ((initial_login True JUndefined JUndefined)
        \<lparr>formattedPodUrl := ''https://acme.symphony.com'',
         loginUrl := getBrowserLoginUrl ''https://acme.symphony.com''\<rparr>))
     = Some ''https://acme.symphony.com''"
proof -
  let ?s = "(initial_login True JUndefined JUndefined)
        \<lparr>formattedPodUrl := ''https://acme.symphony.com'',
         loginUrl := getBrowserLoginUrl ''https://acme.symphony.com''\<rparr>"
  have g: "get_prop (JObj [(''authenticationType'', JStr ''sso'')]) ''authenticationType''
      = Inr (JStr ''sso'')"
    "get_prop (JObj [(''authenticationType'', JStr ''password'')]) ''authenticationType''
      = Inr (JStr ''password'')"
    by simp_all
  have f: "calls ?s = []" "loginUrl ?s = getBrowserLoginUrl ''https://acme.symphony.com''"
    "formattedPodUrl ?s = ''https://acme.symphony.com''" "mainWebContentsAlive ?s"
    "JStr ''password'' \<noteq> JStr ''sso''"
    by (simp_all add: initial_login_def)
  from auth_response_routing [OF g(1), of False ?s]
  have "calls (loadPodUrl_then False (JObj [(''authenticationType'', JStr ''sso'')]) ?s)
      = calls ?s @ [OpenExternal (loginUrl ?s)]"
    by blast
  moreover from auth_response_routing [OF g(2), of False ?s] f(4,5)
  have "calls (loadPodUrl_then False (JObj [(''authenticationType'', JStr ''password'')]) ?s)
      = calls ?s @ [SetMainWindowOrigin (formattedPodUrl ?s), LoadURL (formattedPodUrl ?s)]"
    and "mainWindowOrigin (loadPodUrl_then False (JObj [(''authenticationType'', JStr ''password'')]) ?s)
      = Some (formattedPodUrl ?s)"
    by blast+
  ultimately show ?thesis
    by (simp only: f append_Nil simp_thms)
qed

text \<open>
  The claim as stated fails when the main web contents are missing or destroyed: the
  guard around \<^verbatim>\<open>setMainWindowOrigin\<close> and \<^verbatim>\<open>loadURL\<close> skips both.
\<close>

theorem no_main_contents_no_load:
  "calls (loadPodUrl_then False (JObj [(''authenticationType'', JStr ''password'')])
      ((initial_login False JUndefined JUndefined)
        \<lparr>formattedPodUrl := ''https://acme.symphony.com'',
         loginUrl := getBrowserLoginUrl ''https://acme.symphony.com''\<rparr>)) = []
   \<and> mainWindowOrigin (loadPodUrl_then False (JObj [(''authenticationType'', JStr ''password'')])
      ((initial_login False JUndefined JUndefined)
        \<lparr>formattedPodUrl := ''https://acme.symphony.com'',
         loginUrl := getBrowserLoginUrl ''https://acme.symphony.com''\<rparr>)) = None"
  by (simp add: loadPodUrl_then_def initial_login_def)











text \<open>
  Two failures before any credentials: the second failure puts the callback of its own
  promise in the holder. Each of the two prompts then resolves the second promise; the
  first is never resolved.
\<close>

lemma second_failure_replaces_resolver:
  "(case basicAuth_callback ''alice'' ''secret''
        (loadPodUrl_catch True \<lparr>etype = JStr ''proxy'', ecode = JStr ''PROXY_AUTH_FAILED''\<rparr>
          (loadPodUrl_catch False \<lparr>etype = JStr ''proxy'', ecode = JStr ''PROXY_AUTH_FAILED''\<rparr>
            (initial_login True JUndefined JUndefined))) of
      Inl e \<Rightarrow> False
    | Inr s1 \<Rightarrow>
        promises s1 = [False, True] \<and> resolved s1 = [1]
        \<and> (case basicAuth_callback ''alice'' ''secret'' s1 of
              Inl e \<Rightarrow> False
            | Inr s2 \<Rightarrow> promises s2 = [False, True] \<and> resolved s2 = [1, 1]))"
  by (simp add: loadPodUrl_catch_def basicAuth_callback_def loadPodUrl_def proxy_failure_def
      initial_login_def request_def Let_def)
section \<open>The dispatcher\<close>

lemma match_case_None: "\<forall>c\<in>set labels. tag c \<noteq> v \<Longrightarrow> match_case tag labels v = None"
  by (simp add: match_case_def find_None_iff)

lemma log_labels_subset: "set log_labels \<subseteq> set on_labels"
  by (simp add: log_labels_def on_labels_def)

lemma logApiCallParams_default:
  "get_prop arg ''cmd'' = Inr cmd \<Longrightarrow> match_case tag log_labels cmd = None \<Longrightarrow>
     logApiCallParams tag other arg = api_call_line cmd arg"
  by (simp add: logApiCallParams_def)

lemma sample_match:
  "match_case sample_tag log_labels (JStr ''showNotification'') = Some showNotification"
  "match_case sample_tag log_labels (JStr ''badgeDataUrl'') = Some badgeDataUrl"
  "match_case sample_tag log_labels (JStr ''openScreenPickerWindow'') = Some openScreenPickerWindow"
  "match_case sample_tag log_labels (JStr ''sendLogs'') = Some sendLogs"
  "match_case sample_tag log_labels (JStr ''writeCloud9Pipe'') = Some writeCloud9Pipe"
  by (simp_all add: match_case_def log_labels_def sample_tag_def)

lemma sample_tag_strings: "sample_tag c \<noteq> JObj kvs" "sample_tag c \<noteq> JStr ''noSuchCommand''"
  by (simp_all add: sample_tag_def split: option.splits)

lemma sample_unknown:
  "match_case sample_tag labels (JObj kvs) = None"
  "match_case sample_tag labels (JStr ''noSuchCommand'') = None"
  by (simp_all add: match_case_def find_None_iff sample_tag_strings)

text \<open>
  An unknown command is ignored as long as the line for the log can be built. Take a
  message that has a \<^verbatim>\<open>cmd\<close> whose value is none of the \<^verbatim>\<open>case\<close> labels of the two
  listeners, a \<^verbatim>\<open>cmd\<close> that has a string conversion and a message that can be serialised.
  On the fire-and-forget channel no handler runs: the state of the host is unchanged and
  the listener returns normally, having written one line to the log (the error line for
  an unknown sender or for a falsy argument, else the line of the API call). On the invoke
  channel, which writes no line for the call, no handler runs either: the state is
  unchanged and the caller gets \<^verbatim>\<open>undefined\<close>, whatever the message holds.
\<close>

lemma unknown_cmd_ignored:
  assumes "get_prop arg ''cmd'' = Inr cmd"
    and "\<forall>c\<in>set (on_labels @ handle_labels). tag c \<noteq> cmd"
  shows "has_string_conversion cmd \<and> serialisable arg \<longrightarrow>
         on_symphonyApi tag other handler event arg (st, log) =
           Inr (st, log @ [if \<not> (senderWindowValid event \<or> senderViewValid event)
                           then ErrorLine invalid_window_text [cmd]
                           else if \<not> truthy arg then ErrorLine no_args_text []
                           else ApiCallLine cmd arg])"
    and "handle_symphonyApi tag handler' event arg (st, log) =
           Inr (JUndefined, st,
                log @ (if \<not> (senderWindowValid event \<or> senderViewValid event)
                       then [ErrorLine invalid_window_text [cmd]] else []))"
proof -
  from assms(2) have on: "match_case tag on_labels cmd = None"
    and hd: "match_case tag handle_labels cmd = None"
    by (simp_all add: match_case_None)
  from assms(2) log_labels_subset have "match_case tag log_labels cmd = None"
    by (intro match_case_None) auto
  with assms(1) have lg: "logApiCallParams tag other arg = api_call_line cmd arg"
    by (rule logApiCallParams_default)
  show "has_string_conversion cmd \<and> serialisable arg \<longrightarrow>
         on_symphonyApi tag other handler event arg (st, log) =
           Inr (st, log @ [if \<not> (senderWindowValid event \<or> senderViewValid event)
                           then ErrorLine invalid_window_text [cmd]
                           else if \<not> truthy arg then ErrorLine no_args_text []
                           else ApiCallLine cmd arg])"
    by (simp add: on_symphonyApi_def assms(1) on lg api_call_line_def)
  show "handle_symphonyApi tag handler' event arg (st, log) =
           Inr (JUndefined, st,
                log @ (if \<not> (senderWindowValid event \<or> senderViewValid event)
                       then [ErrorLine invalid_window_text [cmd]] else []))"
    by (simp add: handle_symphonyApi_def assms(1) hd)
qed

lemma unknown_cmd_ignored_example:
  "on_symphonyApi sample_tag other (\<lambda>c e a n. Suc n)
      \<lparr>sender = 1, senderWindowValid = True, senderViewValid = False\<rparr>
      (JObj [(''cmd'', JStr ''noSuchCommand'')]) (0, [])
     = Inr (0, [ApiCallLine (JStr ''noSuchCommand'') (JObj [(''cmd'', JStr ''noSuchCommand'')])])
   \<and> handle_symphonyApi sample_tag (\<lambda>c e a n. (JNull, Suc n))
      \<lparr>sender = 1, senderWindowValid = True, senderViewValid = False\<rparr>
      (JObj [(''cmd'', JStr ''noSuchCommand'')]) (0, [])
     = Inr (JUndefined, 0, [])"
  by (simp add: on_symphonyApi_def handle_symphonyApi_def logApiCallParams_def
      api_call_line_def sample_unknown)

text \<open>
  Claim C7: a message whose \<^verbatim>\<open>cmd\<close> is none of the known tags is silently ignored, with
  no state change, no response and no error. The code breaks it on the fire-and-forget
  channel for a message whose log line cannot be built. \<^verbatim>\<open>logApiCallParams(arg)\<close> runs
  before the switch and outside any \<^verbatim>\<open>try\<close> block. Take a message from a valid sender
  that has a \<^verbatim>\<open>cmd\<close> whose value is none of the \<^verbatim>\<open>case\<close> labels of the two listeners.
  If \<^verbatim>\<open>cmd\<close> has no string conversion (as in \<^verbatim>\<open>{cmd: {toString: 1, valueOf: 1}}\<close>) or
  the message cannot be serialised (as in \<^verbatim>\<open>{cmd: 'noSuchCommand', count: 10n}\<close>, where
  \<^verbatim>\<open>JSON.stringify\<close> meets a \<^verbatim>\<open>BigInt\<close>), a TypeError is thrown before the \<^verbatim>\<open>default\<close>
  branch is reached, and the promise of the listener is rejected. In every other case the
  listener writes the line of the call and returns with the state unchanged. The listener
  of the invoke channel, which does not log the call, ignores all these messages: the
  state is unchanged and the caller gets \<^verbatim>\<open>undefined\<close>.
\<close>

theorem unknown_cmd_rejects_listener:
  assumes "get_prop arg ''cmd'' = Inr cmd"
    and "\<forall>c\<in>set (on_labels @ handle_labels). tag c \<noteq> cmd"
    and "senderWindowValid event \<or> senderViewValid event"
    and "truthy arg"
  shows "(\<not> (has_string_conversion cmd \<and> serialisable arg) \<longrightarrow>
            on_symphonyApi tag other handler event arg s = Inl TypeError)
     \<and> (has_string_conversion cmd \<and> serialisable arg \<longrightarrow>
            on_symphonyApi tag other handler event arg s
              = Inr (fst s, snd s @ [ApiCallLine cmd arg]))
     \<and> handle_symphonyApi tag handler' event arg s = Inr (JUndefined, fst s, snd s)"
proof -
  from assms(2) have on: "match_case tag on_labels cmd = None"
    and hd: "match_case tag handle_labels cmd = None"
    by (simp_all add: match_case_None)
  from assms(2) log_labels_subset have "match_case tag log_labels cmd = None"
    by (intro match_case_None) auto
  with assms(1) have lg: "logApiCallParams tag other arg = api_call_line cmd arg"
    by (rule logApiCallParams_default)
  show ?thesis
    using assms(3,4)
    by (simp add: on_symphonyApi_def handle_symphonyApi_def assms(1) on hd lg api_call_line_def)
qed

theorem unknown_cmd_rejects_listener_witness:
  "on_symphonyApi sample_tag (\<lambda>_. Inl TypeError) (\<lambda>c e a n. Suc n)
      \<lparr>sender = 1, senderWindowValid = True, senderViewValid = False\<rparr>
      (JObj [(''cmd'', JObj [(''toString'', JNum 1), (''valueOf'', JNum 1)])]) (0, [])
     = Inl TypeError
   \<and> on_symphonyApi sample_tag (\<lambda>_. Inl TypeError) (\<lambda>c e a n. Suc n)
      \<lparr>sender = 1, senderWindowValid = True, senderViewValid = False\<rparr>
      (JObj [(''cmd'', JStr ''noSuchCommand''), (''count'', JBigInt 10)]) (0, [])
     = Inl TypeError
   \<and> on_symphonyApi sample_tag (\<lambda>_. Inl TypeError) (\<lambda>c e a n. Suc n)
      \<lparr>sender = 1, senderWindowValid = True, senderViewValid = False\<rparr>
      (JObj [(''cmd'', JStr ''noSuchCommand''), (''count'', JNum 10)]) (0, [])
     = Inr (0, [ApiCallLine (JStr ''noSuchCommand'')
                  (JObj [(''cmd'', JStr ''noSuchCommand''), (''count'', JNum 10)])])
   \<and> handle_symphonyApi sample_tag (\<lambda>c e a n. (JNull, Suc n))
      \<lparr>sender = 1, senderWindowValid = True, senderViewValid = False\<rparr>
      (JObj [(''cmd'', JObj [(''toString'', JNum 1), (''valueOf'', JNum 1)])]) (0, [])
     = Inr (JUndefined, 0, [])
   \<and> handle_symphonyApi sample_tag (\<lambda>c e a n. (JNull, Suc n))
      \<lparr>sender = 1, senderWindowValid = True, senderViewValid = False\<rparr>
      (JObj [(''cmd'', JStr ''noSuchCommand''), (''count'', JBigInt 10)]) (0, [])
     = Inr (JUndefined, 0, [])"
proof -
  let ?ev = "\<lparr>sender = 1, senderWindowValid = True, senderViewValid = False\<rparr>"
  let ?c1 = "JObj [(''toString'', JNum 1), (''valueOf'', JNum 1)]"
  let ?a1 = "JObj [(''cmd'', ?c1)]"
  let ?c2 = "JStr ''noSuchCommand''"
  let ?a2 = "JObj [(''cmd'', ?c2), (''count'', JBigInt 10)]"
  let ?a3 = "JObj [(''cmd'', ?c2), (''count'', JNum 10)]"
  have g: "get_prop ?a1 ''cmd'' = Inr ?c1" "get_prop ?a2 ''cmd'' = Inr ?c2"
    "get_prop ?a3 ''cmd'' = Inr ?c2"
    by simp_all
  have u: "\<forall>c\<in>set (on_labels @ handle_labels). sample_tag c \<noteq> ?c1"
    "\<forall>c\<in>set (on_labels @ handle_labels). sample_tag c \<noteq> ?c2"
    by (simp_all add: sample_tag_strings)
  have v: "senderWindowValid ?ev \<or> senderViewValid ?ev" by simp
  have t: "truthy ?a1" "truthy ?a2" "truthy ?a3" by simp_all
  have n: "\<not> (has_string_conversion ?c1 \<and> serialisable ?a1)"
    "\<not> (has_string_conversion ?c2 \<and> serialisable ?a2)"
    "has_string_conversion ?c2 \<and> serialisable ?a3"
    by simp_all
  note A = unknown_cmd_rejects_listener [OF g(1) u(1) v t(1),
      where other = "\<lambda>_. Inl TypeError" and handler = "\<lambda>c e a n. Suc n"
        and handler' = "\<lambda>c e a n. (JNull, Suc n)" and s = "(0, [])"]
  note B = unknown_cmd_rejects_listener [OF g(2) u(2) v t(2),
      where other = "\<lambda>_. Inl TypeError" and handler = "\<lambda>c e a n. Suc n"
        and handler' = "\<lambda>c e a n. (JNull, Suc n)" and s = "(0, [])"]
  note C = unknown_cmd_rejects_listener [OF g(3) u(2) v t(3),
      where other = "\<lambda>_. Inl TypeError" and handler = "\<lambda>c e a n. Suc n"
        and handler' = "\<lambda>c e a n. (JNull, Suc n)" and s = "(0, [])"]
  from A n(1) have 1: "on_symphonyApi sample_tag (\<lambda>_. Inl TypeError) (\<lambda>c e a n. Suc n) ?ev ?a1 (0, [])
      = Inl TypeError"
    and 4: "handle_symphonyApi sample_tag (\<lambda>c e a n. (JNull, Suc n)) ?ev ?a1 (0, [])
      = Inr (JUndefined, fst (0::nat, []::log_line list), snd (0::nat, []::log_line list))"
    by blast+
  from B n(2) have 2: "on_symphonyApi sample_tag (\<lambda>_. Inl TypeError) (\<lambda>c e a n. Suc n) ?ev ?a2 (0, [])
      = Inl TypeError"
    and 5: "handle_symphonyApi sample_tag (\<lambda>c e a n. (JNull, Suc n)) ?ev ?a2 (0, [])
      = Inr (JUndefined, fst (0::nat, []::log_line list), snd (0::nat, []::log_line list))"
    by blast+
  from C n(3) have 3: "on_symphonyApi sample_tag (\<lambda>_. Inl TypeError) (\<lambda>c e a n. Suc n) ?ev ?a3 (0, [])
      = Inr (fst (0::nat, []::log_line list), snd (0::nat, []::log_line list) @ [ApiCallLine ?c2 ?a3])"
    by blast
  from 1 2 3 4 5 show ?thesis
    by (simp only: fst_conv snd_conv append_Nil simp_thms)
qed

lemma invalid_sender_dropped:
  assumes "\<not> (senderWindowValid event \<or> senderViewValid event)"
    and "get_prop arg ''cmd'' = Inr cmd"
  shows "on_symphonyApi tag other handler event arg s
           = Inr (fst s, snd s @ [ErrorLine invalid_window_text [cmd]])"
    and "handle_symphonyApi tag handler' event arg s
           = Inr (JUndefined, fst s, snd s @ [ErrorLine invalid_window_text [cmd]])"
  using assms by (simp_all add: on_symphonyApi_def handle_symphonyApi_def)

text \<open>
  Claim C8: a message whose sender is neither a valid window nor a valid view is
  dropped, with an error line naming its command, no handler, no response and no
  exception. The code breaks it for a message without payload. Both listeners read
  \<^verbatim>\<open>arg.cmd\<close> for the error line before they test \<^verbatim>\<open>!arg\<close>; with \<^verbatim>\<open>arg\<close> undefined the
  read throws, no line is written and the promise of the listener is rejected, which on
  the invoke channel is answered to the caller. The same message from a valid sender
  reaches the test and is dropped with the line "no args received". (For a message with a
  payload the claim holds, lemma \<open>invalid_sender_dropped\<close>.)
\<close>

theorem invalid_sender_without_payload_throws:
  "on_symphonyApi tag other handler
      \<lparr>sender = w, senderWindowValid = False, senderViewValid = False\<rparr> JUndefined s
     = Inl TypeError
   \<and> handle_symphonyApi tag handler'
      \<lparr>sender = w, senderWindowValid = False, senderViewValid = False\<rparr> JUndefined s
     = Inl TypeError
   \<and> on_symphonyApi tag other handler
      \<lparr>sender = w, senderWindowValid = True, senderViewValid = False\<rparr> JUndefined s
     = Inr (fst s, snd s @ [ErrorLine no_args_text []])"
  by (simp add: on_symphonyApi_def handle_symphonyApi_def)


section \<open>Redaction in the log\<close>

lemma same_but_Nil: "same_but [] ps qs \<Longrightarrow> ps = qs"
  unfolding same_but_def
  by (induction ps qs rule: list_all2_induct) (auto simp: prod_eq_iff)

lemma same_but_keys: "same_but ks ps qs \<Longrightarrow> map fst ps = map fst qs"
  unfolding same_but_def
  by (induction ps qs rule: list_all2_induct) auto

lemma same_but_drop_key:
  "same_but ks ps qs \<Longrightarrow> k \<notin> fst ` set ps \<Longrightarrow> same_but (removeAll k ks) ps qs"
  unfolding same_but_def
  by (induction ps qs rule: list_all2_induct) auto

lemma same_but_with_prop:
  "same_but ks ps qs \<Longrightarrow> distinct (map fst ps) \<Longrightarrow>
     same_but (removeAll k ks) (with_prop k v ps) (with_prop k v qs)"
proof (induction ps arbitrary: qs)
  case Nil
  then show ?case by (simp add: same_but_def with_prop_def)
next
  case (Cons p ps)
  from Cons.prems(1) obtain q qs' where qs: "qs = q # qs'"
    and hd: "fst p = fst q" "fst p \<in> set ks \<or> snd p = snd q"
    and tl: "same_but ks ps qs'"
    by (auto simp: same_but_def list_all2_Cons1)
  show ?case
  proof (cases "fst p = k")
    case True
    with Cons.prems(2) have "k \<notin> fst ` set ps" by auto
    with tl have "same_but (removeAll k ks) ps qs'" by (rule same_but_drop_key)
    with True hd qs show ?thesis
      by (simp add: same_but_def with_prop_def)
  next
    case False
    from Cons.IH [OF tl] Cons.prems(2)
    have "same_but (removeAll k ks) (with_prop k v ps) (with_prop k v qs')" by simp
    with False hd qs show ?thesis
      by (auto simp: same_but_def with_prop_def)
  qed
qed

lemma distinct_with_prop: "distinct (map fst ps) \<Longrightarrow> distinct (map fst (with_prop k v ps))"
  by (simp add: with_prop_def distinct_update)

lemma with_prop_same_but1:
  assumes "same_but [k] ps qs" and "distinct (map fst ps)"
  shows "with_prop k v ps = with_prop k v qs"
  using same_but_with_prop [OF assms, of k v] by (simp add: same_but_Nil)

lemma with_prop_same_but3:
  assumes "same_but [k1, k2, k3] ps qs" and "distinct (map fst ps)"
    and "k1 \<noteq> k2" "k1 \<noteq> k3" "k2 \<noteq> k3"
  shows "with_prop k3 v (with_prop k2 v (with_prop k1 v ps))
       = with_prop k3 v (with_prop k2 v (with_prop k1 v qs))"
proof -
  from same_but_with_prop [OF assms(1,2), of k1 v] assms(3,4)
  have a: "same_but [k2, k3] (with_prop k1 v ps) (with_prop k1 v qs)" by auto
  from same_but_with_prop [OF a distinct_with_prop [OF assms(2)], of k2 v] assms(5)
  have b: "same_but [k3] (with_prop k2 v (with_prop k1 v ps)) (with_prop k2 v (with_prop k1 v qs))"
    by auto
  from with_prop_same_but1 [OF b distinct_with_prop [OF distinct_with_prop [OF assms(2)]]]
  show ?thesis .
qed

lemma map_of_with_prop: "map_of (with_prop k v ps) k' = (if k' = k then Some v else map_of ps k')"
  by (simp add: with_prop_def update_conv')

lemma hide_thumbnail_same: "same_source a b \<Longrightarrow> hide_thumbnail a = hide_thumbnail b"
  by (simp add: same_source_def hide_thumbnail_def)

lemma map_sources_same: "list_all2 same_source ss ts \<Longrightarrow> map_sources ss = map_sources ts"
  by (induction ss ts rule: list_all2_induct) (simp_all add: hide_thumbnail_same split: sum.splits)

lemma label_simps:
  "showNotification \<noteq> badgeDataUrl" "showNotification \<noteq> openScreenPickerWindow"
  "showNotification \<noteq> sendLogs" "showNotification \<noteq> writeCloud9Pipe"
  "badgeDataUrl \<noteq> openScreenPickerWindow" "badgeDataUrl \<noteq> sendLogs"
  "badgeDataUrl \<noteq> writeCloud9Pipe" "openScreenPickerWindow \<noteq> sendLogs"
  "openScreenPickerWindow \<noteq> writeCloud9Pipe" "sendLogs \<noteq> writeCloud9Pipe"
  by simp_all

lemma Buffer_from_bytes: "Buffer_from other (JBuf payload) = Inr payload"
  by (simp add: Buffer_from_def)

text \<open>
  Claim C6, as amended. The line \<^verbatim>\<open>logApiCallParams\<close> writes does not depend on the
  sensitive fields of four commands, which it replaces by the placeholder \<^verbatim>\<open>hidden\<close>:
  two \<^verbatim>\<open>showNotification\<close> messages whose options differ only in title, body and data
  give the same result (the same line, or both no line), and so do two \<^verbatim>\<open>badgeDataUrl\<close>
  messages that differ only in the data URL, two \<^verbatim>\<open>openScreenPickerWindow\<close> messages
  whose sources differ only in what is not logged (the thumbnails), and two \<^verbatim>\<open>sendLogs\<close>
  messages that differ only in the log files; the line is built from the command and a
  record that holds \<^verbatim>\<open>hidden\<close> under these names. For \<^verbatim>\<open>writeCloud9Pipe\<close> there is no
  placeholder: the line is built from a record that carries, in place of the payload, the
  base64 text of the bytes \<^verbatim>\<open>Buffer.from\<close> makes of the payload, and decoding that text
  gives these bytes back; for a payload that is a byte buffer they are the bytes of the
  payload; when \<^verbatim>\<open>Buffer.from\<close> throws, so does \<^verbatim>\<open>logApiCallParams\<close>. In all cases the line is written when the command has a string conversion and
  the record can be serialised; else a TypeError is thrown and nothing is written.
\<close>

theorem log_record_redacted:
  assumes "get_prop arg1 ''cmd'' = Inr cmd" and "get_prop arg2 ''cmd'' = Inr cmd"
  shows "(match_case tag log_labels cmd = Some showNotification
          \<and> get_prop arg1 ''notificationOpts'' = Inr (JObj o1)
          \<and> get_prop arg2 ''notificationOpts'' = Inr (JObj o2)
          \<and> distinct (map fst o1) \<and> same_but [''title'', ''body'', ''data''] o1 o2
        \<longrightarrow> logApiCallParams tag other arg1 = logApiCallParams tag other arg2
          \<and> (\<exists>r. logApiCallParams tag other arg1 = api_call_line cmd (JObj r)
                \<and> map_of r ''title'' = Some hidden \<and> map_of r ''body'' = Some hidden
                \<and> map_of r ''data'' = Some hidden))
     \<and> (match_case tag log_labels cmd = Some badgeDataUrl
          \<and> arg1 = JObj a1 \<and> arg2 = JObj a2
          \<and> distinct (map fst a1) \<and> same_but [''dataUrl''] a1 a2
        \<longrightarrow> logApiCallParams tag other arg1 = logApiCallParams tag other arg2
          \<and> (\<exists>r. logApiCallParams tag other arg1 = api_call_line cmd (JObj r)
                \<and> map_of r ''dataUrl'' = Some hidden))
     \<and> (match_case tag log_labels cmd = Some openScreenPickerWindow
          \<and> arg1 = JObj a1 \<and> arg2 = JObj a2
          \<and> distinct (map fst a1) \<and> same_but [''sources''] a1 a2
          \<and> get_prop arg1 ''sources'' = Inr (JArr ss1)
          \<and> get_prop arg2 ''sources'' = Inr (JArr ss2)
          \<and> list_all2 same_source ss1 ss2
        \<longrightarrow> logApiCallParams tag other arg1 = logApiCallParams tag other arg2)
     \<and> (match_case tag log_labels cmd = Some sendLogs
          \<and> get_prop arg1 ''logs'' = Inr (JObj l1)
          \<and> get_prop arg2 ''logs'' = Inr (JObj l2)
          \<and> distinct (map fst l1) \<and> same_but [''logFiles''] l1 l2
        \<longrightarrow> logApiCallParams tag other arg1 = logApiCallParams tag other arg2
          \<and> (\<exists>r. logApiCallParams tag other arg1 = api_call_line cmd (JObj r)
                \<and> map_of r ''logFiles'' = Some hidden))
     \<and> (match_case tag log_labels cmd = Some writeCloud9Pipe
          \<and> arg1 = JObj a1 \<and> get_prop arg1 ''data'' = Inr d \<and> Buffer_from other d = Inr bytes
        \<longrightarrow> logApiCallParams tag other arg1
              = api_call_line cmd (JObj (with_prop ''data'' (JStr (base64_encode bytes)) a1))
          \<and> base64_decode (base64_encode bytes) = Some bytes
          \<and> (\<forall>payload. d = JBuf payload \<longrightarrow> bytes = payload))
     \<and> (match_case tag log_labels cmd = Some writeCloud9Pipe
          \<and> get_prop arg1 ''data'' = Inr d \<and> Buffer_from other d = Inl e
        \<longrightarrow> logApiCallParams tag other arg1 = Inl e)
     \<and> (has_string_conversion cmd \<and> serialisable properties
        \<longrightarrow> api_call_line cmd properties = Inr (ApiCallLine cmd properties))
     \<and> (\<not> (has_string_conversion cmd \<and> serialisable properties)
        \<longrightarrow> api_call_line cmd properties = Inl TypeError)"
proof -
  have n: "logApiCallParams tag other arg1 = logApiCallParams tag other arg2
      \<and> (\<exists>r. logApiCallParams tag other arg1 = api_call_line cmd (JObj r)
                \<and> map_of r ''title'' = Some hidden \<and> map_of r ''body'' = Some hidden
                \<and> map_of r ''data'' = Some hidden)"
    if "match_case tag log_labels cmd = Some showNotification"
      "get_prop arg1 ''notificationOpts'' = Inr (JObj o1)"
      "get_prop arg2 ''notificationOpts'' = Inr (JObj o2)"
      "distinct (map fst o1)" "same_but [''title'', ''body'', ''data''] o1 o2"
  proof -
    have "with_prop ''data'' hidden (with_prop ''body'' hidden (with_prop ''title'' hidden o1))
        = with_prop ''data'' hidden (with_prop ''body'' hidden (with_prop ''title'' hidden o2))"
      by (rule with_prop_same_but3 [OF that(5,4)]) simp_all
    moreover have "logApiCallParams tag other arg1 = api_call_line cmd
        (JObj (with_prop ''data'' hidden (with_prop ''body'' hidden (with_prop ''title'' hidden o1))))"
      "logApiCallParams tag other arg2 = api_call_line cmd
        (JObj (with_prop ''data'' hidden (with_prop ''body'' hidden (with_prop ''title'' hidden o2))))"
      using that(1-3) assms by (simp_all add: logApiCallParams_def)
    ultimately show ?thesis
      by (intro conjI exI [of _ "with_prop ''data'' hidden
            (with_prop ''body'' hidden (with_prop ''title'' hidden o1))"])
        (simp_all add: map_of_with_prop)
  qed
  have b: "logApiCallParams tag other arg1 = logApiCallParams tag other arg2
      \<and> (\<exists>r. logApiCallParams tag other arg1 = api_call_line cmd (JObj r)
                \<and> map_of r ''dataUrl'' = Some hidden)"
    if "match_case tag log_labels cmd = Some badgeDataUrl" "arg1 = JObj a1" "arg2 = JObj a2"
      "distinct (map fst a1)" "same_but [''dataUrl''] a1 a2"
  proof -
    have "logApiCallParams tag other arg1
        = api_call_line cmd (JObj (with_prop ''dataUrl'' hidden a1))"
      "logApiCallParams tag other arg2
        = api_call_line cmd (JObj (with_prop ''dataUrl'' hidden a2))"
      using that(1-3) assms by (simp_all add: logApiCallParams_def label_simps)
    with with_prop_same_but1 [OF that(5,4), of hidden] show ?thesis
      by (intro conjI exI [of _ "with_prop ''dataUrl'' hidden a1"])
        (simp_all add: map_of_with_prop)
  qed
  have p: "logApiCallParams tag other arg1 = logApiCallParams tag other arg2"
    if "match_case tag log_labels cmd = Some openScreenPickerWindow"
      "arg1 = JObj a1" "arg2 = JObj a2"
      "distinct (map fst a1)" "same_but [''sources''] a1 a2"
      "get_prop arg1 ''sources'' = Inr (JArr ss1)" "get_prop arg2 ''sources'' = Inr (JArr ss2)"
      "list_all2 same_source ss1 ss2"
  proof -
    have m: "map_sources ss1 = map_sources ss2"
      using that(8) by (rule map_sources_same)
    have w: "with_prop ''sources'' v a1 = with_prop ''sources'' v a2" for v
      by (rule with_prop_same_but1 [OF that(5,4)])
    from that(6,7) have g: "get_prop (JObj a1) ''sources'' = Inr (JArr ss1)"
      "get_prop (JObj a2) ''sources'' = Inr (JArr ss2)"
      by (simp_all add: that(2,3))
    show ?thesis
      using that(1) assms
      unfolding logApiCallParams_def that(2,3) Let_def
      by (simp add: g m w sources_map_def label_simps del: get_prop.simps split: sum.splits)
  qed
  have l: "logApiCallParams tag other arg1 = logApiCallParams tag other arg2
      \<and> (\<exists>r. logApiCallParams tag other arg1 = api_call_line cmd (JObj r)
                \<and> map_of r ''logFiles'' = Some hidden)"
    if "match_case tag log_labels cmd = Some sendLogs"
      "get_prop arg1 ''logs'' = Inr (JObj l1)" "get_prop arg2 ''logs'' = Inr (JObj l2)"
      "distinct (map fst l1)" "same_but [''logFiles''] l1 l2"
  proof -
    have "logApiCallParams tag other arg1
        = api_call_line cmd (JObj (with_prop ''logFiles'' hidden l1))"
      "logApiCallParams tag other arg2
        = api_call_line cmd (JObj (with_prop ''logFiles'' hidden l2))"
      using that(1-3) assms by (simp_all add: logApiCallParams_def label_simps)
    with with_prop_same_but1 [OF that(5,4), of hidden] show ?thesis
      by (intro conjI exI [of _ "with_prop ''logFiles'' hidden l1"])
        (simp_all add: map_of_with_prop)
  qed
  have c: "logApiCallParams tag other arg1
              = api_call_line cmd (JObj (with_prop ''data'' (JStr (base64_encode bytes)) a1))"
    if "match_case tag log_labels cmd = Some writeCloud9Pipe"
      "arg1 = JObj a1" "get_prop arg1 ''data'' = Inr d" "Buffer_from other d = Inr bytes"
    using that assms
    by (simp add: logApiCallParams_def label_simps del: get_prop.simps)
  have t: "logApiCallParams tag other arg1 = Inl e"
    if "match_case tag log_labels cmd = Some writeCloud9Pipe"
      "get_prop arg1 ''data'' = Inr d" "Buffer_from other d = Inl e"
    using that assms
    by (simp add: logApiCallParams_def label_simps del: get_prop.simps)
  have f: "\<forall>payload. d = JBuf payload \<longrightarrow> bytes = payload"
    if "Buffer_from other d = Inr bytes"
    using that by (auto simp: Buffer_from_def)
  have k: "has_string_conversion cmd \<and> serialisable properties
        \<longrightarrow> api_call_line cmd properties = Inr (ApiCallLine cmd properties)"
    "\<not> (has_string_conversion cmd \<and> serialisable properties)
        \<longrightarrow> api_call_line cmd properties = Inl TypeError"
    by (simp_all add: api_call_line_def)
  from n b p l c t f k show ?thesis
    by (simp only: base64_roundtrip simp_thms) blast
qed

theorem log_record_redacted_witness:
  "logApiCallParams sample_tag (\<lambda>_. Inl TypeError)
      (JObj [(''cmd'', JStr ''showNotification''),
             (''notificationOpts'',
              JObj [(''id'', JNum 7), (''title'', JStr ''Alice''), (''body'', JStr ''lunch?''),
                    (''data'', JStr ''room-1'')])])
     = logApiCallParams sample_tag (\<lambda>_. Inl TypeError)
      (JObj [(''cmd'', JStr ''showNotification''),
             (''notificationOpts'',
              JObj [(''id'', JNum 7), (''title'', JStr ''Bob''), (''body'', JStr ''merger''),
                    (''data'', JStr ''room-2'')])])
   \<and> logApiCallParams sample_tag (\<lambda>_. Inl TypeError)
      (JObj [(''cmd'', JStr ''badgeDataUrl''), (''dataUrl'', JStr ''data:a''), (''count'', JNum 3)])
     = logApiCallParams sample_tag (\<lambda>_. Inl TypeError)
      (JObj [(''cmd'', JStr ''badgeDataUrl''), (''dataUrl'', JStr ''data:b''), (''count'', JNum 3)])
   \<and> logApiCallParams sample_tag (\<lambda>_. Inl TypeError)
      (JObj [(''cmd'', JStr ''openScreenPickerWindow''),
             (''sources'', JArr [JObj [(''name'', JStr ''Screen 1''), (''thumbnail'', JStr ''img-a'')]]),
             (''id'', JNum 1)])
     = logApiCallParams sample_tag (\<lambda>_. Inl TypeError)
      (JObj [(''cmd'', JStr ''openScreenPickerWindow''),
             (''sources'', JArr [JObj [(''name'', JStr ''Screen 1''), (''thumbnail'', JStr ''img-b'')]]),
             (''id'', JNum 1)])
   \<and> logApiCallParams sample_tag (\<lambda>_. Inl TypeError)
      (JObj [(''cmd'', JStr ''sendLogs''),
             (''logs'', JObj [(''logName'', JStr ''x''), (''logFiles'', JArr [JStr ''line a''])])])
     = logApiCallParams sample_tag (\<lambda>_. Inl TypeError)
      (JObj [(''cmd'', JStr ''sendLogs''),
             (''logs'', JObj [(''logName'', JStr ''x''), (''logFiles'', JArr [JStr ''line b''])])])
   \<and> logApiCallParams sample_tag (\<lambda>_. Inl TypeError)
      (JObj [(''cmd'', JStr ''writeCloud9Pipe''), (''data'', JBuf [77, 97, 110])])
     = Inr (ApiCallLine (JStr ''writeCloud9Pipe'')
             (JObj [(''cmd'', JStr ''writeCloud9Pipe''), (''data'', JStr ''TWFu'')]))"
proof -
  let ?o1 = "[(''id'', JNum 7), (''title'', JStr ''Alice''), (''body'', JStr ''lunch?''),
              (''data'', JStr ''room-1'')]"
  let ?o2 = "[(''id'', JNum 7), (''title'', JStr ''Bob''), (''body'', JStr ''merger''),
              (''data'', JStr ''room-2'')]"
  let ?n1 = "JObj [(''cmd'', JStr ''showNotification''), (''notificationOpts'', JObj ?o1)]"
  let ?n2 = "JObj [(''cmd'', JStr ''showNotification''), (''notificationOpts'', JObj ?o2)]"
  have n: "get_prop ?n1 ''cmd'' = Inr (JStr ''showNotification'')"
    "get_prop ?n2 ''cmd'' = Inr (JStr ''showNotification'')"
    "get_prop ?n1 ''notificationOpts'' = Inr (JObj ?o1)"
    "get_prop ?n2 ''notificationOpts'' = Inr (JObj ?o2)"
    "distinct (map fst ?o1)" "same_but [''title'', ''body'', ''data''] ?o1 ?o2"
    by (simp_all add: same_but_def)
  from log_record_redacted [OF n(1,2), where tag = sample_tag and other = "\<lambda>_. Inl TypeError"] sample_match(1) n(3-6)
  have 1: "logApiCallParams sample_tag (\<lambda>_. Inl TypeError) ?n1 = logApiCallParams sample_tag (\<lambda>_. Inl TypeError) ?n2"
    by blast
  let ?b1 = "[(''cmd'', JStr ''badgeDataUrl''), (''dataUrl'', JStr ''data:a''), (''count'', JNum 3)]"
  let ?b2 = "[(''cmd'', JStr ''badgeDataUrl''), (''dataUrl'', JStr ''data:b''), (''count'', JNum 3)]"
  have b: "get_prop (JObj ?b1) ''cmd'' = Inr (JStr ''badgeDataUrl'')"
    "get_prop (JObj ?b2) ''cmd'' = Inr (JStr ''badgeDataUrl'')"
    "distinct (map fst ?b1)" "same_but [''dataUrl''] ?b1 ?b2"
    by (simp_all add: same_but_def)
  from log_record_redacted [OF b(1,2), where tag = sample_tag and other = "\<lambda>_. Inl TypeError"] sample_match(2) b(3,4)
  have 2: "logApiCallParams sample_tag (\<lambda>_. Inl TypeError) (JObj ?b1) = logApiCallParams sample_tag (\<lambda>_. Inl TypeError) (JObj ?b2)"
    by blast
  let ?s1 = "[JObj [(''name'', JStr ''Screen 1''), (''thumbnail'', JStr ''img-a'')]]"
  let ?s2 = "[JObj [(''name'', JStr ''Screen 1''), (''thumbnail'', JStr ''img-b'')]]"
  let ?p1 = "[(''cmd'', JStr ''openScreenPickerWindow''), (''sources'', JArr ?s1), (''id'', JNum 1)]"
  let ?p2 = "[(''cmd'', JStr ''openScreenPickerWindow''), (''sources'', JArr ?s2), (''id'', JNum 1)]"
  have p: "get_prop (JObj ?p1) ''cmd'' = Inr (JStr ''openScreenPickerWindow'')"
    "get_prop (JObj ?p2) ''cmd'' = Inr (JStr ''openScreenPickerWindow'')"
    "distinct (map fst ?p1)" "same_but [''sources''] ?p1 ?p2"
    "get_prop (JObj ?p1) ''sources'' = Inr (JArr ?s1)"
    "get_prop (JObj ?p2) ''sources'' = Inr (JArr ?s2)"
    "list_all2 same_source ?s1 ?s2"
    by (simp_all add: same_but_def same_source_def)
  from log_record_redacted [OF p(1,2), where tag = sample_tag and other = "\<lambda>_. Inl TypeError"] sample_match(3) p(3-7)
  have 3: "logApiCallParams sample_tag (\<lambda>_. Inl TypeError) (JObj ?p1) = logApiCallParams sample_tag (\<lambda>_. Inl TypeError) (JObj ?p2)"
    by blast
  let ?l1 = "[(''logName'', JStr ''x''), (''logFiles'', JArr [JStr ''line a''])]"
  let ?l2 = "[(''logName'', JStr ''x''), (''logFiles'', JArr [JStr ''line b''])]"
  let ?g1 = "JObj [(''cmd'', JStr ''sendLogs''), (''logs'', JObj ?l1)]"
  let ?g2 = "JObj [(''cmd'', JStr ''sendLogs''), (''logs'', JObj ?l2)]"
  have l: "get_prop ?g1 ''cmd'' = Inr (JStr ''sendLogs'')"
    "get_prop ?g2 ''cmd'' = Inr (JStr ''sendLogs'')"
    "get_prop ?g1 ''logs'' = Inr (JObj ?l1)" "get_prop ?g2 ''logs'' = Inr (JObj ?l2)"
    "distinct (map fst ?l1)" "same_but [''logFiles''] ?l1 ?l2"
    by (simp_all add: same_but_def)
  from log_record_redacted [OF l(1,2), where tag = sample_tag and other = "\<lambda>_. Inl TypeError"] sample_match(4) l(3-6)
  have 4: "logApiCallParams sample_tag (\<lambda>_. Inl TypeError) ?g1 = logApiCallParams sample_tag (\<lambda>_. Inl TypeError) ?g2"
    by blast
  let ?w = "[(''cmd'', JStr ''writeCloud9Pipe''), (''data'', JBuf [77, 97, 110])]"
  have w: "get_prop (JObj ?w) ''cmd'' = Inr (JStr ''writeCloud9Pipe'')"
    "get_prop (JObj ?w) ''data'' = Inr (JBuf [77, 97, 110])"
    "Buffer_from (\<lambda>_. Inl TypeError) (JBuf [77, 97, 110]) = Inr [77, 97, 110]"
    by (simp_all add: Buffer_from_def)
  have enc: "base64_encode [77, 97, 110] = ''TWFu''"
    by (simp add: sextet0_def sextet1_def sextet2_def sextet3_def b64_char_def b64_alphabet_def)
  from log_record_redacted [OF w(1,1), where tag = sample_tag and other = "\<lambda>_. Inl TypeError"] sample_match(5) w(2,3)
  have "logApiCallParams sample_tag (\<lambda>_. Inl TypeError) (JObj ?w)
      = api_call_line (JStr ''writeCloud9Pipe'')
          (JObj (with_prop ''data'' (JStr (base64_encode [77, 97, 110])) ?w))"
    by blast
  then have 5: "logApiCallParams sample_tag (\<lambda>_. Inl TypeError) (JObj ?w)
      = Inr (ApiCallLine (JStr ''writeCloud9Pipe'')
             (JObj [(''cmd'', JStr ''writeCloud9Pipe''), (''data'', JStr ''TWFu'')]))"
    by (simp only: enc) (simp add: with_prop_def api_call_line_def)
  from 1 2 3 4 5 show ?thesis by (simp only: simp_thms)
qed

text \<open>
  The claim as stated says that every sensitive field is replaced by a fixed placeholder.
  For \<^verbatim>\<open>writeCloud9Pipe\<close> two payloads give two different lines, and each line gives its
  payload back. (The payloads are byte buffers, which \<^verbatim>\<open>Buffer.from\<close> copies; what stands
  for its other inputs is not consulted.)
\<close>

theorem pipe_payload_logged_in_base64:
  "logApiCallParams sample_tag (\<lambda>_. Inl TypeError)
      (JObj [(''cmd'', JStr ''writeCloud9Pipe''), (''data'', JBuf [1])])
     = Inr (ApiCallLine (JStr ''writeCloud9Pipe'')
             (JObj [(''cmd'', JStr ''writeCloud9Pipe''), (''data'', JStr ''AQ=='')]))
   \<and> logApiCallParams sample_tag (\<lambda>_. Inl TypeError)
      (JObj [(''cmd'', JStr ''writeCloud9Pipe''), (''data'', JBuf [2])])
     = Inr (ApiCallLine (JStr ''writeCloud9Pipe'')
             (JObj [(''cmd'', JStr ''writeCloud9Pipe''), (''data'', JStr ''Ag=='')]))
   \<and> base64_decode ''AQ=='' = Some [1] \<and> base64_decode ''Ag=='' = Some [2]"
proof -
  have enc: "base64_encode [1] = ''AQ==''" "base64_encode [2] = ''Ag==''"
    by (simp_all add: sextet0_def sextet1_def b64_char_def b64_alphabet_def)
  have dec: "base64_decode ''AQ=='' = Some [1]" "base64_decode ''Ag=='' = Some [2]"
    using base64_roundtrip [of "[1]"] base64_roundtrip [of "[2]"] by (simp_all only: enc)
  have "logApiCallParams sample_tag (\<lambda>_. Inl TypeError) (JObj [(''cmd'', JStr ''writeCloud9Pipe''), (''data'', JBuf [b])])
     = Inr (ApiCallLine (JStr ''writeCloud9Pipe'')
             (JObj [(''cmd'', JStr ''writeCloud9Pipe''), (''data'', JStr (base64_encode [b]))]))" for b
    by (simp add: logApiCallParams_def api_call_line_def Buffer_from_def sample_match
        with_prop_def label_simps del: base64_encode.simps)
  then show ?thesis
    by (simp only: enc dec simp_thms)
qed


end
